theory Spec2Isabelle
  imports Complex_Main "HOL-Library.Log_Nat" "HOL-Library.Multiset" "HOL-Library.Sublist"
begin

section \<open>Values, tensors and errors\<close>

text \<open>
  The model follows \<^verbatim>\<open>src/model_clay_v1.py\<close>. Tensors are nested lists in row-major
  order: a vector is a list of numbers, a \<open>B \<times> L\<close> matrix a list of \<open>B\<close> rows, and so on.
  The entries of floating-point tensors are real numbers: rounding, overflow and NaN
  entries of the float arithmetic inside a tensor are not modelled. The two places where
  the source's float arithmetic decides a result are modelled explicitly: the product
  \<^verbatim>\<open>mask_ratio * num_patches\<close> (rounded to a double before \<^verbatim>\<open>int\<close> truncates it) and the
  final quotient of the loss (whose denominator can be zero).

  Every exception of the source is a value of \<open>error\<close>; a function that can raise
  returns \<open>error + 'a\<close>.
\<close>

type_synonym vec = "real list"
type_synonym mat = "real list list"
type_synonym ten3 = "real list list list"
type_synonym ten4 = "real list list list list"

datatype error =
    IndexError
  | AttributeError string
  | RuntimeError
  | EinopsError
  | ValueError string
  | AssertionError
  | NotImplementedError
  | TypeError

subsection \<open>Indexing and slicing\<close>

definition column :: "'a list list \<Rightarrow> nat \<Rightarrow> error + 'a list" where
  \<comment> \<open>\<^verbatim>\<open>t[:, k]\<close> on a two-dimensional tensor\<close>
  "column t k =
     (if list_all (\<lambda>r. k < length r) t then Inr (map (\<lambda>r. r ! k) t) else Inl IndexError)"

definition set_column :: "'a list list \<Rightarrow> nat \<Rightarrow> 'a list \<Rightarrow> error + 'a list list" where
  \<comment> \<open>\<^verbatim>\<open>t[:, k] = v\<close>: \<open>v\<close> has one entry per row, or a single entry that is broadcast\<close>
  "set_column t k v =
     (if length v = length t then Inr (map (\<lambda>(r, x). r[k := x]) (zip t v))
      else if length v = 1 then Inr (map (\<lambda>r. r[k := hd v]) t)
      else Inl RuntimeError)"

definition fill_columns :: "'a list list \<Rightarrow> nat \<Rightarrow> nat \<Rightarrow> 'a \<Rightarrow> 'a list list" where
  \<comment> \<open>\<^verbatim>\<open>t[:, lo:hi] = c\<close> for \<open>0 \<le> lo \<le> hi\<close>\<close>
  "fill_columns t lo hi c =
     map (\<lambda>r. take lo r @ replicate (min hi (length r) - lo) c @ drop hi r) t"

definition first_row :: "'a list \<Rightarrow> error + 'a" where
  \<comment> \<open>\<^verbatim>\<open>t[0]\<close>\<close>
  "first_row t = (case t of [] \<Rightarrow> Inl IndexError | x # _ \<Rightarrow> Inr x)"

definition slice_bound :: "int \<Rightarrow> nat \<Rightarrow> nat" where
  \<comment> \<open>the position a slice bound \<open>n\<close> denotes in a sequence of length \<open>L\<close>: a negative
      bound counts from the end, and the result is clipped to \<open>0..L\<close>\<close>
  "slice_bound n L = (if n < 0 then nat (int L + n) else min (nat n) L)"

definition slice_to :: "int \<Rightarrow> 'a list \<Rightarrow> 'a list" where
  \<comment> \<open>\<^verbatim>\<open>xs[:n]\<close>\<close>
  "slice_to n xs = take (slice_bound n (length xs)) xs"

definition slice_from :: "int \<Rightarrow> 'a list \<Rightarrow> 'a list" where
  \<comment> \<open>\<^verbatim>\<open>xs[n:]\<close>\<close>
  "slice_from n xs = drop (slice_bound n (length xs)) xs"

subsection \<open>Shapes and elementwise operations\<close>

text \<open>
  A nested list has the shape \<open>(B, L)\<close>, \<open>(B, L, D)\<close> or \<open>(B, C, H, W)\<close> when every level has
  the stated length. Operations that combine two tensors require equal shapes, as they
  have in the forward pass; where they differ the model raises \<open>RuntimeError\<close>
  (the broadcasting of a dimension of size one is not modelled).
\<close>

definition is_mat :: "nat \<Rightarrow> nat \<Rightarrow> 'a list list \<Rightarrow> bool" where
  "is_mat B L m = (length m = B \<and> list_all (\<lambda>r. length r = L) m)"

definition is_ten3 :: "nat \<Rightarrow> nat \<Rightarrow> nat \<Rightarrow> 'a list list list \<Rightarrow> bool" where
  "is_ten3 B L D t = (length t = B \<and> list_all (is_mat L D) t)"

definition is_ten4 :: "nat \<Rightarrow> nat \<Rightarrow> nat \<Rightarrow> nat \<Rightarrow> 'a list list list list \<Rightarrow> bool" where
  "is_ten4 B C H W t = (length t = B \<and> list_all (is_ten3 C H W) t)"

definition same_shape2 :: "'a list list \<Rightarrow> 'b list list \<Rightarrow> bool" where
  "same_shape2 a b = list_all2 (\<lambda>u v. length u = length v) a b"

definition same_shape3 :: "'a list list list \<Rightarrow> 'b list list list \<Rightarrow> bool" where
  "same_shape3 a b = list_all2 same_shape2 a b"

definition add3 :: "ten3 \<Rightarrow> ten3 \<Rightarrow> error + ten3" where
  \<comment> \<open>\<^verbatim>\<open>a + b\<close> on tensors of three dimensions\<close>
  "add3 a b =
     (if same_shape3 a b then Inr (map2 (map2 (map2 (+))) a b) else Inl RuntimeError)"

definition cat_last :: "ten3 \<Rightarrow> ten3 \<Rightarrow> error + ten3" where
  \<comment> \<open>\<^verbatim>\<open>torch.cat((a, b), dim=-1)\<close>: the first two dimensions agree\<close>
  "cat_last a b =
     (if same_shape2 a b then Inr (map2 (map2 (@)) a b) else Inl RuntimeError)"

definition widths :: "'a list list list \<Rightarrow> nat list" where
  \<comment> \<open>the lengths of the vectors of a tensor, without repetition\<close>
  "widths t = remdups (map length (concat t))"

definition cat_dim1 :: "ten3 \<Rightarrow> ten3 \<Rightarrow> error + ten3" where
  \<comment> \<open>\<^verbatim>\<open>torch.cat((a, b), dim=1)\<close>: the batch size and the width agree\<close>
  "cat_dim1 a b =
     (if length a = length b \<and> length (remdups (widths a @ widths b)) \<le> 1
      then Inr (map2 (@) a b) else Inl RuntimeError)"

definition gather :: "'a list \<Rightarrow> nat list \<Rightarrow> 'a list" where
  \<comment> \<open>one row of \<^verbatim>\<open>torch.gather(t, dim=1, index)\<close> and of \<^verbatim>\<open>t[batch_indices, index, :]\<close>,
      for indices within the row\<close>
  "gather row idx = map (\<lambda>i. row ! i) idx"

definition index_rows :: "'a list list \<Rightarrow> nat list list \<Rightarrow> error + 'a list list" where
  \<comment> \<open>\<^verbatim>\<open>t[batch_indices, idx, :]\<close> with \<open>batch_indices\<close> the column \<open>0..B-1\<close>: row \<open>b\<close> of
      the result lists the entries of row \<open>b\<close> of \<open>t\<close> at the indices of row \<open>b\<close> of \<open>idx\<close>\<close>
  "index_rows t idx =
     (if length idx \<noteq> length t then Inl IndexError
      else if list_all2 (\<lambda>row i. list_all (\<lambda>k. k < length row) i) t idx
      then Inr (map2 gather t idx) else Inl IndexError)"

definition scatter :: "'a list \<Rightarrow> nat list \<Rightarrow> 'a list \<Rightarrow> 'a list" where
  \<comment> \<open>one row of an indexed assignment: the values are written at the indices, in order\<close>
  "scatter row idx vals = fold (\<lambda>(i, v) r. r[i := v]) (zip idx vals) row"

definition index_put :: "ten3 \<Rightarrow> nat list list \<Rightarrow> ten3 \<Rightarrow> error + ten3" where
  \<comment> \<open>\<^verbatim>\<open>t[batch_indices, idx, :] = vals\<close>\<close>
  "index_put t idx vals =
     (if length idx \<noteq> length t
         \<or> \<not> list_all2 (\<lambda>row i. list_all (\<lambda>k. k < length row) i) t idx then Inl IndexError
      else if same_shape2 idx vals \<and> length (remdups (widths t @ widths vals)) \<le> 1
      then Inr (map (\<lambda>(row, i, v). scatter row i v) (zip t (zip idx vals)))
      else Inl RuntimeError)"

section \<open>Metadata encoder\<close>

text \<open>
  \<^verbatim>\<open>encode_metadata(time, latlon, has_time=True, has_lat_lon=True)\<close>, lines 21 to 53.
  The buffer \<open>encoded_values\<close> starts as \<open>B \<times> 8\<close> zeros with \<open>B = time.size(0)\<close>. The first
  branch tests \<^verbatim>\<open>has_lat_lon\<close>; the second tests \<^verbatim>\<open>not has_time\<close>.
\<close>

definition encode_latlon_block :: "mat \<Rightarrow> mat \<Rightarrow> error + mat" where
  "encode_latlon_block encoded_values latlon =
     (case column latlon 0 of Inl e \<Rightarrow> Inl e | Inr lat0 \<Rightarrow>
      case column latlon 1 of Inl e \<Rightarrow> Inl e | Inr lon0 \<Rightarrow>
        let lat = map (\<lambda>x. x * pi / 180) lat0;
            lon = map (\<lambda>x. x * pi / 180) lon0
        in
      case set_column encoded_values 0 (map sin lat) of Inl e \<Rightarrow> Inl e | Inr ev0 \<Rightarrow>
      case set_column ev0 1 (map cos lat) of Inl e \<Rightarrow> Inl e | Inr ev1 \<Rightarrow>
      case set_column ev1 2 (map sin lon) of Inl e \<Rightarrow> Inl e | Inr ev2 \<Rightarrow>
        set_column ev2 3 (map cos lon))"

definition encode_time_block :: "mat \<Rightarrow> mat \<Rightarrow> error + mat" where
  "encode_time_block encoded_values time =
     (case column time 0 of Inl e \<Rightarrow> Inl e | Inr hour0 \<Rightarrow>
      case column time 1 of Inl e \<Rightarrow> Inl e | Inr week0 \<Rightarrow>
        let hour = map (\<lambda>x. x * 2 * pi / 24) hour0;
            week = map (\<lambda>x. x * 2 * pi / 52) week0
        in
      case set_column encoded_values 4 (map sin hour) of Inl e \<Rightarrow> Inl e | Inr ev4 \<Rightarrow>
      case set_column ev4 5 (map cos hour) of Inl e \<Rightarrow> Inl e | Inr ev5 \<Rightarrow>
      case set_column ev5 6 (map sin week) of Inl e \<Rightarrow> Inl e | Inr ev6 \<Rightarrow>
        set_column ev6 7 (map cos week))"

definition encode_metadata :: "mat \<Rightarrow> mat \<Rightarrow> bool \<Rightarrow> bool \<Rightarrow> error + mat" where
  "encode_metadata time latlon has_time has_lat_lon =
     (let B = length time;
          encoded_values = replicate B (replicate 8 0)
      in
      case (if has_lat_lon then encode_latlon_block encoded_values latlon
            else Inr (fill_columns encoded_values 0 4 0)) of
        Inl e \<Rightarrow> Inl e
      | Inr ev \<Rightarrow>
          if \<not> has_time then encode_time_block ev time
          else Inr (fill_columns ev 4 8 0))"

definition metadata_row_spec :: "vec \<Rightarrow> vec \<Rightarrow> vec" where
  \<comment> \<open>the 8-wide vector of the specification for one sample, from its \<open>[hour, week]\<close> and
      \<open>[lat, lon]\<close> rows\<close>
  "metadata_row_spec t ll =
     [sin (ll ! 0 * pi / 180), cos (ll ! 0 * pi / 180),
      sin (ll ! 1 * pi / 180), cos (ll ! 1 * pi / 180),
      sin (t ! 0 * 2 * pi / 24), cos (t ! 0 * 2 * pi / 24),
      sin (t ! 1 * 2 * pi / 52), cos (t ! 1 * 2 * pi / 52)]"

section \<open>Python numbers\<close>

text \<open>
  \<^verbatim>\<open>int(self.mask_ratio * self.num_patches)\<close> multiplies a float by an integer: the
  integer is converted to a double, the product is rounded to the nearest double (ties to
  even), and \<^verbatim>\<open>int\<close> truncates towards zero. A double is modelled by the rational number
  it denotes; the exponent range (overflow, subnormal numbers) is not modelled.
\<close>

definition pow2 :: "int \<Rightarrow> rat" where
  "pow2 k = (if 0 \<le> k then 2 ^ nat k else 1 / 2 ^ nat (- k))"

definition round_half_even :: "rat \<Rightarrow> int" where
  "round_half_even x =
     (let f = \<lfloor>x\<rfloor>; d = x - of_int f
      in if d < 1 / 2 then f else if 1 / 2 < d then f + 1 else if even f then f else f + 1)"

definition binary_exponent :: "rat \<Rightarrow> int" where
  \<comment> \<open>for \<open>0 < x\<close>, the \<open>e\<close> with \<open>2^e \<le> x < 2^(e+1)\<close>\<close>
  "binary_exponent x =
     (let (a, b) = quotient_of x; k = bitlen a - bitlen b
      in if pow2 k \<le> x then k else k - 1)"

definition round_double :: "rat \<Rightarrow> rat" where
  \<comment> \<open>the nearest number with a 53-bit significand\<close>
  "round_double x =
     (if x = 0 then 0
      else let u = pow2 (binary_exponent \<bar>x\<bar> - 52)
           in sgn x * of_int (round_half_even (\<bar>x\<bar> / u)) * u)"

definition float_mul_int :: "rat \<Rightarrow> nat \<Rightarrow> rat" where
  \<comment> \<open>\<^verbatim>\<open>x * n\<close> for a float \<open>x\<close> and an integer \<open>n\<close>\<close>
  "float_mul_int x n = round_double (x * round_double (of_nat n))"

definition py_int :: "rat \<Rightarrow> int" where
  \<comment> \<open>\<^verbatim>\<open>int(x)\<close>: truncation towards zero\<close>
  "py_int x = (if 0 \<le> x then \<lfloor>x\<rfloor> else \<lceil>x\<rceil>)"

definition py_round :: "rat \<Rightarrow> int" where
  \<comment> \<open>\<^verbatim>\<open>round(x)\<close>: the nearest integer, ties to even\<close>
  "py_round x = round_half_even x"

fun isqrt :: "nat \<Rightarrow> nat" where
  \<comment> \<open>\<^verbatim>\<open>int(math.sqrt(L))\<close>: the integer square root (for \<open>L\<close> below \<open>2^52\<close> the float
      square root truncates to it)\<close>
  "isqrt 0 = 0"
| "isqrt (Suc n) = (let r = isqrt n in if Suc r * Suc r \<le> Suc n then Suc r else r)"

section \<open>Encoder\<close>

text \<open>
  The class \<^verbatim>\<open>Encoder\<close>, lines 56 to 243. Its learned parameter and its two submodules
  (\<^verbatim>\<open>DynamicEmbedding\<close> of \<^verbatim>\<open>src.factory\<close>, \<^verbatim>\<open>Transformer\<close> of \<^verbatim>\<open>vit_pytorch\<close>)
  are fields holding the functions they compute. \<open>num_patches\<close> is an attribute that
  \<^verbatim>\<open>__init__\<close> does not create: \<^verbatim>\<open>add_encodings\<close> assigns it and \<^verbatim>\<open>mask_out\<close> reads it.
  \<open>training\<close> is the mode flag of \<^verbatim>\<open>nn.Module\<close>.
\<close>

record Encoder =
  mask_ratio :: rat
  patch_size :: nat
  dim :: nat
  cls_token :: vec
  patch_embedding :: "ten4 \<Rightarrow> vec \<Rightarrow> error + ten3 \<times> mat"
  transformer :: "ten3 \<Rightarrow> error + ten3"
  num_patches :: "nat option"
  training :: bool

subsection \<open>Masking\<close>

definition argsort :: "'k::linorder list \<Rightarrow> nat list" where
  \<comment> \<open>\<^verbatim>\<open>torch.argsort(xs)\<close>, ascending; equal keys keep their order of position (torch
      leaves their order open; the keys of the evaluation mode and the permutations
      sorted by \<^verbatim>\<open>mask_out\<close> have no equal keys)\<close>
  "argsort xs = sort_key (\<lambda>i. xs ! i) [0..<length xs]"

definition dim1 :: "'a list list \<Rightarrow> nat" where
  \<comment> \<open>the second entry of \<^verbatim>\<open>t.shape\<close> (0 for a tensor with no rows)\<close>
  "dim1 t = (case t of [] \<Rightarrow> 0 | r # _ \<Rightarrow> length r)"

definition eval_noise :: "nat \<Rightarrow> nat \<Rightarrow> nat list list" where
  \<comment> \<open>\<^verbatim>\<open>rearrange(torch.arange(B * L), "(B L) -> B L", B=B, L=L)\<close>\<close>
  "eval_noise B L = map (\<lambda>b. map (\<lambda>j. b * L + j) [0..<L]) [0..<B]"

definition train_noise :: "(nat \<Rightarrow> nat \<Rightarrow> rat) \<Rightarrow> nat \<Rightarrow> nat \<Rightarrow> rat list list" where
  \<comment> \<open>\<^verbatim>\<open>torch.randn((B, L))\<close>: \<open>randn b j\<close> is the number drawn for sample \<open>b\<close>, patch \<open>j\<close>\<close>
  "train_noise randn B L = map (\<lambda>b. map (randn b) [0..<L]) [0..<B]"

definition num_masked :: "rat \<Rightarrow> nat \<Rightarrow> int" where
  \<comment> \<open>\<^verbatim>\<open>int(self.mask_ratio * self.num_patches)\<close>\<close>
  "num_masked r n = py_int (float_mul_int r n)"

definition structured_mask :: "int \<Rightarrow> nat \<Rightarrow> vec" where
  \<comment> \<open>a row of \<^verbatim>\<open>torch.zeros((B, L))\<close> after \<^verbatim>\<open>masked_matrix[:, :num_masked_patches] = 1\<close>\<close>
  "structured_mask n L = replicate (slice_bound n L) 1 @ replicate (L - slice_bound n L) 0"

definition mask_out ::
  "Encoder \<Rightarrow> (nat \<Rightarrow> nat \<Rightarrow> rat) \<Rightarrow> ten3
     \<Rightarrow> error + ten3 \<times> nat list list \<times> nat list list \<times> mat" where
  "mask_out self randn patches =
     (let B = length patches;
          L = dim1 patches;
          random_indices =
            (if training self then map argsort (train_noise randn B L)
             else map argsort (eval_noise B L));
          reverse_indices = map argsort random_indices
      in
      case num_patches self of
        None \<Rightarrow> Inl (AttributeError ''num_patches'')
      | Some np \<Rightarrow>
          let num_masked_patches = num_masked (Encoder.mask_ratio self) np;
              masked_indices = map (slice_to num_masked_patches) random_indices;
              unmasked_indices = map (slice_from num_masked_patches) random_indices;
              masked_matrix =
                map (gather (structured_mask num_masked_patches L)) reverse_indices;
              unmasked_patches = map2 gather patches unmasked_indices
          in Inr (unmasked_patches, unmasked_indices, masked_indices, masked_matrix))"

definition random_indices_of ::
  "Encoder \<Rightarrow> (nat \<Rightarrow> nat \<Rightarrow> rat) \<Rightarrow> nat \<Rightarrow> nat \<Rightarrow> nat list list" where
  \<comment> \<open>the value of \<open>random_indices\<close> in \<open>mask_out\<close>, named for the proofs\<close>
  "random_indices_of self randn B L =
     (if training self then map argsort (train_noise randn B L) else map argsort (eval_noise B L))"

subsection \<open>Positional and metadata encoding\<close>

text \<open>
  \<^verbatim>\<open>posemb_sincos_2d_with_gsd\<close> of \<^verbatim>\<open>src.utils\<close> is not part of the source file: the
  functions that call it take it as the parameter \<open>posemb\<close>, applied to \<open>h\<close>, \<open>w\<close>, \<open>dim\<close>
  and \<open>gsd\<close>. The encoder passes the row \<^verbatim>\<open>gsd[0]\<close>, the decoder the number
  \<^verbatim>\<open>gsd[0][0]\<close>.
\<close>

datatype gsd_arg = GsdRow vec | GsdNumber real

type_synonym posemb_fun = "nat \<Rightarrow> nat \<Rightarrow> int \<Rightarrow> gsd_arg \<Rightarrow> error + mat"

definition pos_metadata ::
  "posemb_fun \<Rightarrow> nat \<Rightarrow> nat \<Rightarrow> nat \<Rightarrow> int \<Rightarrow> gsd_arg \<Rightarrow> mat \<Rightarrow> mat \<Rightarrow> error + ten3" where
  \<comment> \<open>the lines shared by \<^verbatim>\<open>add_encodings\<close> and \<^verbatim>\<open>reconstruct_and_add_encoding\<close>: the
      position encoding repeated over the batch, the metadata repeated over the patches,
      and their concatenation \<open>pos_metadata_encoding\<close>\<close>
  "pos_metadata posemb B L grid_size width g time latlon =
     (case posemb grid_size grid_size width g of Inl e \<Rightarrow> Inl e | Inr pos_encoding \<Rightarrow>
      case encode_metadata time latlon True True of Inl e \<Rightarrow> Inl e | Inr metadata \<Rightarrow>
        cat_last (replicate B pos_encoding) (map (replicate L) metadata))"

definition add_encodings ::
  "posemb_fun \<Rightarrow> Encoder \<Rightarrow> ten3 \<Rightarrow> mat \<Rightarrow> mat \<Rightarrow> mat \<Rightarrow> error + Encoder \<times> ten3" where
  "add_encodings posemb self patches time latlon gsd =
     (let B = length patches;
          L = dim1 patches;
          grid_size = isqrt L;
          self1 = self\<lparr>num_patches := Some (grid_size * grid_size)\<rparr>
      in
      case first_row gsd of Inl e \<Rightarrow> Inl e | Inr gsd0 \<Rightarrow>
      case pos_metadata posemb B L grid_size (int (Encoder.dim self1) - 8) (GsdRow gsd0)
             time latlon of
        Inl e \<Rightarrow> Inl e
      | Inr pos_metadata_encoding \<Rightarrow>
      case add3 patches pos_metadata_encoding of Inl e \<Rightarrow> Inl e | Inr patches1 \<Rightarrow>
        Inr (self1, patches1))"

subsection \<open>Forward pass of the encoder\<close>

record datacube =
  pixels :: ten4
  time :: mat
  latlon :: mat
  gsd :: mat
  waves :: mat

definition Encoder_forward ::
  "posemb_fun \<Rightarrow> Encoder \<Rightarrow> (nat \<Rightarrow> nat \<Rightarrow> rat) \<Rightarrow> 'a datacube_scheme
     \<Rightarrow> error + Encoder \<times> ten3 \<times> nat list list \<times> nat list list \<times> mat" where
  \<comment> \<open>the result carries the encoder after the call, whose \<open>num_patches\<close> is assigned\<close>
  "Encoder_forward posemb self randn datacube =
     (let cube = pixels datacube;
          B = length cube
      in
      case first_row (waves datacube) of Inl e \<Rightarrow> Inl e | Inr waves0 \<Rightarrow>
      case patch_embedding self cube waves0 of Inl e \<Rightarrow> Inl e | Inr (patches, waves_encoded) \<Rightarrow>
      case add_encodings posemb self patches (time datacube) (latlon datacube) (gsd datacube) of
        Inl e \<Rightarrow> Inl e
      | Inr (self1, patches1) \<Rightarrow>
      case mask_out self1 randn patches1 of
        Inl e \<Rightarrow> Inl e
      | Inr (unmasked_patches, unmasked_indices, masked_indices, masked_matrix) \<Rightarrow>
      case cat_dim1 (replicate B [cls_token self1]) unmasked_patches of
        Inl e \<Rightarrow> Inl e
      | Inr with_cls \<Rightarrow>
      case Encoder.transformer self1 with_cls of
        Inl e \<Rightarrow> Inl e
      | Inr encoded_unmasked_patches \<Rightarrow>
          Inr (self1, encoded_unmasked_patches, unmasked_indices, masked_indices,
               masked_matrix))"

datatype attribute =
    FloatAttr rat | IntAttr nat | BoolAttr bool | ParameterAttr vec | ModuleAttr

definition Encoder_getattr :: "Encoder \<Rightarrow> string \<Rightarrow> error + attribute" where
  \<comment> \<open>attribute lookup on an \<^verbatim>\<open>Encoder\<close> object. The attributes are those the class
      assigns (\<open>num_patches\<close> only once \<^verbatim>\<open>add_encodings\<close> has run) and the mode flag;
      \<^verbatim>\<open>nn.Module.__getattr__\<close> raises \<^verbatim>\<open>AttributeError\<close> for any other name. Methods
      and the internal attributes of \<^verbatim>\<open>nn.Module\<close> are not modelled.\<close>
  "Encoder_getattr self name =
     (if name = ''mask_ratio'' then Inr (FloatAttr (Encoder.mask_ratio self))
      else if name = ''patch_size'' then Inr (IntAttr (Encoder.patch_size self))
      else if name = ''dim'' then Inr (IntAttr (Encoder.dim self))
      else if name = ''cls_token'' then Inr (ParameterAttr (cls_token self))
      else if name = ''patch_embedding'' then Inr ModuleAttr
      else if name = ''transformer'' then Inr ModuleAttr
      else if name = ''training'' then Inr (BoolAttr (training self))
      else if name = ''num_patches'' then
        (case num_patches self of
           None \<Rightarrow> Inl (AttributeError name) | Some n \<Rightarrow> Inr (IntAttr n))
      else Inl (AttributeError name))"

section \<open>Decoder\<close>

text \<open>
  The class \<^verbatim>\<open>Decoder\<close>, lines 246 to 387. \<open>enc_to_dec\<close> is the linear layer or the
  identity chosen by the constructor. The attribute \<open>num_patches\<close> that
  \<^verbatim>\<open>reconstruct_and_add_encoding\<close> assigns is read only later in the same call and is a
  local value here.
\<close>

record Decoder =
  mask_ratio :: rat
  patch_size :: nat
  encoder_dim :: nat
  dim :: nat
  enc_to_dec :: "ten3 \<Rightarrow> error + ten3"
  mask_patch :: vec
  transformer :: "ten3 \<Rightarrow> error + ten3"
  embed_to_pixels :: "ten3 \<Rightarrow> vec \<Rightarrow> error + ten3 \<times> mat"

definition reconstruct_and_add_encoding ::
  "posemb_fun \<Rightarrow> Decoder \<Rightarrow> ten3 \<Rightarrow> nat list list \<Rightarrow> nat list list \<Rightarrow> mat \<Rightarrow> mat \<Rightarrow> mat
     \<Rightarrow> vec \<Rightarrow> error + ten3" where
  "reconstruct_and_add_encoding posemb self unmasked_patches0 unmasked_indices masked_indices
       masked_matrix time' latlon' gsd' =
     (let B = length masked_matrix;
          L = dim1 masked_matrix;
          grid_size = isqrt L;
          num_patches = grid_size * grid_size;
          cls_tokens = map (take 1) unmasked_patches0;
          unmasked_patches = map (drop 1) unmasked_patches0
      in
      case first_row gsd' of Inl e \<Rightarrow> Inl e | Inr gsd0 \<Rightarrow>
      case pos_metadata posemb B L grid_size (int (Decoder.dim self) - 8) (GsdNumber gsd0)
             time' latlon' of
        Inl e \<Rightarrow> Inl e
      | Inr pos_metadata_encoding \<Rightarrow>
        let num_masked_patches = num_masked (Decoder.mask_ratio self) num_patches in
        if num_masked_patches < 0 then Inl EinopsError
        else
        let masked_patches = replicate B (replicate (nat num_masked_patches) (mask_patch self)) in
      case index_rows pos_metadata_encoding masked_indices of Inl e \<Rightarrow> Inl e | Inr pos_masked \<Rightarrow>
      case add3 masked_patches pos_masked of Inl e \<Rightarrow> Inl e | Inr masked_patches1 \<Rightarrow>
      case index_rows pos_metadata_encoding unmasked_indices of
        Inl e \<Rightarrow> Inl e
      | Inr pos_unmasked \<Rightarrow>
      case add3 unmasked_patches pos_unmasked of Inl e \<Rightarrow> Inl e | Inr unmasked_patches1 \<Rightarrow>
        let decoder_patches0 =
              replicate B (replicate num_patches (replicate (Decoder.dim self) 0)) in
      case index_put decoder_patches0 unmasked_indices unmasked_patches1 of
        Inl e \<Rightarrow> Inl e
      | Inr decoder_patches1 \<Rightarrow>
      case index_put decoder_patches1 masked_indices masked_patches1 of
        Inl e \<Rightarrow> Inl e
      | Inr decoder_patches2 \<Rightarrow>
        cat_dim1 cls_tokens decoder_patches2)"

definition Decoder_forward ::
  "posemb_fun \<Rightarrow> Decoder \<Rightarrow> ten3 \<Rightarrow> nat list list \<Rightarrow> nat list list \<Rightarrow> mat \<Rightarrow> mat \<Rightarrow> mat
     \<Rightarrow> mat \<Rightarrow> mat \<Rightarrow> error + ten3 \<times> mat" where
  "Decoder_forward posemb self encoded_unmasked_patches unmasked_indices masked_indices
       masked_matrix time' latlon' gsd' waves' =
     (case enc_to_dec self encoded_unmasked_patches of Inl e \<Rightarrow> Inl e | Inr projected \<Rightarrow>
      case first_row gsd' of Inl e \<Rightarrow> Inl e | Inr gsd0 \<Rightarrow>
      case reconstruct_and_add_encoding posemb self projected unmasked_indices masked_indices
             masked_matrix time' latlon' gsd0 of
        Inl e \<Rightarrow> Inl e
      | Inr decoder_patches \<Rightarrow>
      case Decoder.transformer self decoder_patches of Inl e \<Rightarrow> Inl e | Inr decoded_patches \<Rightarrow>
      case first_row waves' of Inl e \<Rightarrow> Inl e | Inr waves0 \<Rightarrow>
      case embed_to_pixels self decoded_patches waves0 of
        Inl e \<Rightarrow> Inl e
      | Inr (pixels_all, waves_out) \<Rightarrow> Inr (map (drop 1) pixels_all, waves_out))"

section \<open>Masked autoencoder and its loss\<close>

record ClayMAE =
  mask_ratio :: rat
  patch_size :: nat
  norm_pix_loss :: bool
  encoder :: Encoder
  decoder :: Decoder

datatype fval = Finite real | NaN | PosInf | NegInf

definition fdiv :: "real \<Rightarrow> real \<Rightarrow> fval" where
  \<comment> \<open>the float quotient of two finite numbers: a zero denominator gives NaN or an
      infinity and raises nothing\<close>
  "fdiv a b =
     (if b \<noteq> 0 then Finite (a / b)
      else if a = 0 then NaN else if 0 < a then PosInf else NegInf)"

definition dim2 :: "'a list list list \<Rightarrow> nat" where
  "dim2 t = (case t of [] \<Rightarrow> 0 | x # _ \<Rightarrow> dim1 x)"

definition patchify_image :: "nat \<Rightarrow> real list list list \<Rightarrow> mat" where
  \<comment> \<open>one sample of \<^verbatim>\<open>"B C (h p1) (w p2) -> B (h w) (C p1 p2)"\<close>\<close>
  "patchify_image p img =
     concat (map (\<lambda>hi. map (\<lambda>wi.
        concat (map (\<lambda>ch. concat (map (\<lambda>i. map (\<lambda>j. ch ! (hi * p + i) ! (wi * p + j)) [0..<p])
                                      [0..<p])) img))
        [0..<dim2 img div p]) [0..<dim1 img div p])"

definition patchify :: "nat \<Rightarrow> ten4 \<Rightarrow> error + ten3" where
  "patchify p cube =
     (if p \<noteq> 0
         \<and> list_all (list_all (\<lambda>ch. length ch mod p = 0
                                   \<and> list_all (\<lambda>row. length row mod p = 0) ch)) cube
      then Inr (map (patchify_image p) cube) else Inl EinopsError)"

definition mean :: "vec \<Rightarrow> real" where
  "mean v = sum_list v / real (length v)"

definition var :: "vec \<Rightarrow> real" where
  \<comment> \<open>\<^verbatim>\<open>Tensor.var\<close>: the unbiased estimate\<close>
  "var v = sum_list (map (\<lambda>x. (x - mean v)\<^sup>2) v) / (real (length v) - 1)"

definition normalize :: "vec \<Rightarrow> vec" where
  \<comment> \<open>\<^verbatim>\<open>(patches - mean) / (var + 1e-6) ** 0.5\<close>\<close>
  "normalize v = map (\<lambda>x. (x - mean v) / sqrt (var v + 1 / 1000000)) v"

definition target_patches :: "ClayMAE \<Rightarrow> ten4 \<Rightarrow> error + ten3" where
  \<comment> \<open>the value of \<open>patches\<close> that \<^verbatim>\<open>F.mse_loss\<close> receives\<close>
  "target_patches self cube =
     (case patchify (ClayMAE.patch_size self) cube of Inl e \<Rightarrow> Inl e | Inr patches0 \<Rightarrow>
        Inr (if norm_pix_loss self then map (map normalize) patches0 else patches0))"

definition per_patch_error :: "ClayMAE \<Rightarrow> ten4 \<Rightarrow> ten3 \<Rightarrow> error + mat" where
  \<comment> \<open>the value of \<open>loss\<close> after \<^verbatim>\<open>reduce(loss, "B L D -> B L", reduction="mean")\<close>\<close>
  "per_patch_error self cube pixels' =
     (case target_patches self cube of Inl e \<Rightarrow> Inl e | Inr patches \<Rightarrow>
        if same_shape3 patches pixels'
        then Inr (map (map mean) (map2 (map2 (map2 (\<lambda>x y. (x - y)\<^sup>2))) patches pixels'))
        else Inl RuntimeError)"


definition undefined_mean :: "bool \<Rightarrow> ten3 \<Rightarrow> bool" where
  \<comment> \<open>a mean over no entry, or a variance over fewer than two, is NaN in the source\<close>
  "undefined_mean normed t =
     list_ex (list_ex (\<lambda>v. length v = 0 \<or> (normed \<and> length v = 1))) t"

definition per_pixel_loss :: "ClayMAE \<Rightarrow> ten4 \<Rightarrow> ten3 \<Rightarrow> mat \<Rightarrow> error + fval" where
  "per_pixel_loss self cube pixels' masked_matrix =
     (case per_patch_error self cube pixels' of Inl e \<Rightarrow> Inl e | Inr loss \<Rightarrow>
        if \<not> same_shape2 loss masked_matrix then Inl RuntimeError
        else if undefined_mean (norm_pix_loss self) pixels' then Inr NaN
        else Inr (fdiv (sum_list (concat (map2 (map2 (*)) loss masked_matrix)))
                       (sum_list (concat masked_matrix))))"

definition ClayMAE_forward ::
  "posemb_fun \<Rightarrow> ClayMAE \<Rightarrow> (nat \<Rightarrow> nat \<Rightarrow> rat) \<Rightarrow> 'a datacube_scheme \<Rightarrow> error + fval" where
  "ClayMAE_forward posemb self randn datacube =
     (case Encoder_forward posemb (encoder self) randn datacube of
        Inl e \<Rightarrow> Inl e
      | Inr (encoder1, encoded_unmasked_patches, unmasked_indices, masked_indices,
             masked_matrix) \<Rightarrow>
      case Decoder_forward posemb (decoder self) encoded_unmasked_patches unmasked_indices
             masked_indices masked_matrix (time datacube) (latlon datacube) (gsd datacube)
             (waves datacube) of
        Inl e \<Rightarrow> Inl e
      | Inr (pixels_out, waves_out) \<Rightarrow>
          per_pixel_loss self (pixels datacube) pixels_out masked_matrix)"

section \<open>Construction\<close>

text \<open>
  The constructors of lines 57 to 87, 247 to 281, 391 to 434, 498 to 545. The modules of
  other packages and the initial values of the learned parameters come from a
  \<open>library\<close>: \<^verbatim>\<open>DynamicEmbedding\<close> (in its encoding and its decoding mode), \<^verbatim>\<open>Transformer\<close>,
  \<^verbatim>\<open>nn.Linear\<close>, and the two draws of \<^verbatim>\<open>torch.randn\<close>.
\<close>

record library =
  DynamicEmbedding_encode :: "nat \<Rightarrow> nat \<Rightarrow> nat \<Rightarrow> nat \<Rightarrow> ten4 \<Rightarrow> vec \<Rightarrow> error + ten3 \<times> mat"
  DynamicEmbedding_decode :: "nat \<Rightarrow> nat \<Rightarrow> nat \<Rightarrow> nat \<Rightarrow> ten3 \<Rightarrow> vec \<Rightarrow> error + ten3 \<times> mat"
  Transformer :: "nat \<Rightarrow> nat \<Rightarrow> nat \<Rightarrow> nat \<Rightarrow> int \<Rightarrow> ten3 \<Rightarrow> error + ten3"
  Linear :: "nat \<Rightarrow> nat \<Rightarrow> ten3 \<Rightarrow> error + ten3"
  randn_cls_token :: "nat \<Rightarrow> vec"
  randn_mask_patch :: "nat \<Rightarrow> vec"

definition Encoder_init ::
  "library \<Rightarrow> rat \<Rightarrow> nat \<Rightarrow> nat \<Rightarrow> nat \<Rightarrow> nat \<Rightarrow> nat \<Rightarrow> rat \<Rightarrow> Encoder" where
  "Encoder_init lib mask_ratio' patch_size' dim' depth heads dim_head mlp_ratio =
     \<lparr>Encoder.mask_ratio = mask_ratio',
      patch_size = patch_size',
      dim = dim',
      cls_token = map (\<lambda>x. x * (2 / 100)) (randn_cls_token lib dim'),
      patch_embedding = DynamicEmbedding_encode lib 128 128 patch_size' dim',
      transformer =
        Transformer lib dim' depth heads dim_head (py_int (float_mul_int mlp_ratio dim')),
      num_patches = None,
      training = True\<rparr>"

definition Decoder_init ::
  "library \<Rightarrow> rat \<Rightarrow> nat \<Rightarrow> nat \<Rightarrow> nat \<Rightarrow> nat \<Rightarrow> nat \<Rightarrow> nat \<Rightarrow> rat \<Rightarrow> Decoder" where
  "Decoder_init lib mask_ratio' patch_size' encoder_dim' dim' depth heads dim_head mlp_ratio =
     \<lparr>Decoder.mask_ratio = mask_ratio',
      patch_size = patch_size',
      encoder_dim = encoder_dim',
      dim = dim',
      enc_to_dec = (if encoder_dim' \<noteq> dim' then Linear lib encoder_dim' dim' else Inr),
      mask_patch = randn_mask_patch lib dim',
      transformer =
        Transformer lib dim' depth heads dim_head (py_int (float_mul_int mlp_ratio dim')),
      embed_to_pixels = DynamicEmbedding_decode lib 128 128 patch_size' dim'\<rparr>"

definition ClayMAE_init ::
  "library \<Rightarrow> rat \<Rightarrow> nat \<Rightarrow> bool \<Rightarrow> nat \<Rightarrow> nat \<Rightarrow> nat \<Rightarrow> nat \<Rightarrow> rat
     \<Rightarrow> nat \<Rightarrow> nat \<Rightarrow> nat \<Rightarrow> nat \<Rightarrow> rat \<Rightarrow> ClayMAE" where
  "ClayMAE_init lib mask_ratio' patch_size' norm_pix_loss' dim' depth heads dim_head mlp_ratio
       decoder_dim decoder_depth decoder_heads decoder_dim_head decoder_mlp_ratio =
     \<lparr>ClayMAE.mask_ratio = mask_ratio',
      patch_size = patch_size',
      norm_pix_loss = norm_pix_loss',
      encoder = Encoder_init lib mask_ratio' patch_size' dim' depth heads dim_head mlp_ratio,
      decoder = Decoder_init lib mask_ratio' patch_size' dim' decoder_dim decoder_depth
                  decoder_heads decoder_dim_head decoder_mlp_ratio\<rparr>"

definition clay_mae_tiny :: "library \<Rightarrow> rat \<Rightarrow> nat \<Rightarrow> bool \<Rightarrow> ClayMAE" where
  \<comment> \<open>the keyword arguments are the three that \<^verbatim>\<open>ClayMAEModule.__init__\<close> passes\<close>
  "clay_mae_tiny lib mask_ratio' patch_size' norm_pix_loss' =
     ClayMAE_init lib mask_ratio' patch_size' norm_pix_loss' 192 4 4 48 2 96 2 2 48 2"

record hparams =
  model_size :: string
  mask_ratio :: rat
  norm_pix_loss :: bool
  patch_size :: nat
  lr :: rat
  wd :: rat
  b1 :: rat
  b2 :: rat
  embeddings_level :: string

record ClayMAEModule =
  hparams :: hparams
  model :: ClayMAE

definition model_map :: "(string \<times> (library \<Rightarrow> rat \<Rightarrow> nat \<Rightarrow> bool \<Rightarrow> ClayMAE)) list" where
  "model_map = [(''tiny'', clay_mae_tiny)]"

fun join :: "string \<Rightarrow> string list \<Rightarrow> string" where
  "join sep [] = []"
| "join sep [x] = x"
| "join sep (x # y # ys) = x @ sep @ join sep (y # ys)"

definition dict_keys_repr :: "string list \<Rightarrow> string" where
  \<comment> \<open>how an f-string prints \<^verbatim>\<open>model_map.keys()\<close>\<close>
  "dict_keys_repr ks =
     ''dict_keys(['' @ join '', '' (map (\<lambda>k. [CHR 0x27] @ k @ [CHR 0x27]) ks) @ ''])''"

definition ClayMAEModule_init :: "library \<Rightarrow> hparams \<Rightarrow> error + ClayMAEModule" where
  \<comment> \<open>the arguments of \<^verbatim>\<open>__init__\<close> are the record that \<^verbatim>\<open>save_hyperparameters\<close> keeps\<close>
  "ClayMAEModule_init lib args =
     (case map_of model_map (model_size args) of
        Some build \<Rightarrow>
          Inr \<lparr>hparams = args,
               model = build lib (hparams.mask_ratio args) (hparams.patch_size args)
                         (hparams.norm_pix_loss args)\<rparr>
      | None \<Rightarrow>
          Inl (ValueError (''Invalid model size '' @ model_size args
                           @ ''. Expected one of '' @ dict_keys_repr (map fst model_map))))"

definition default_hparams :: hparams where
  "default_hparams =
     \<lparr>model_size = ''tiny'', mask_ratio = 3 / 4, norm_pix_loss = False, patch_size = 16,
      lr = 1 / 10000, wd = 5 / 100, b1 = 9 / 10, b2 = 95 / 100, embeddings_level = ''mean''\<rparr>"

section \<open>Prediction step\<close>

text \<open>
  \<^verbatim>\<open>ClayMAEModule.predict_step\<close>, lines 589 to 675. The batch is a datacube with four
  more keys. The table is a record of its columns; \<^verbatim>\<open>to_crs\<close> of \<^verbatim>\<open>geopandas\<close> is the
  parameter \<open>to_crs\<close>, and the dates are kept as the strings of the batch. The entries
  of a tensor are real numbers, so the assertion of line 620 that none is NaN holds.
\<close>

record batch = datacube +
  bbox :: mat
  epsg :: "int list"
  date :: "string list"
  source_url :: "string list"

datatype embeddings = MeanEmbeddings mat | PatchEmbeddings "real list list list list"

record GeoDataFrame =
  source_url_column :: "string list"
  date_column :: "string list"
  embeddings_column :: embeddings
  geometry :: "(real \<times> real \<times> real \<times> real) list"
  crs :: string

fun show_nat :: "nat \<Rightarrow> string" where
  "show_nat n =
     (if n < 10 then [char_of (48 + n)] else show_nat (n div 10) @ [char_of (48 + n mod 10)])"

definition show_int :: "int \<Rightarrow> string" where
  "show_int i = (if i < 0 then ''-'' @ show_nat (nat (- i)) else show_nat (nat i))"

definition shape3 :: "'a list list list \<Rightarrow> nat list" where
  "shape3 t = [length t, dim1 t, dim2 t]"

fun chop :: "nat \<Rightarrow> 'a list \<Rightarrow> 'a list list" where
  \<comment> \<open>\<open>xs\<close> in consecutive pieces of length \<open>Suc n\<close>\<close>
  "chop n [] = []"
| "chop n (x # xs) = take (Suc n) (x # xs) # chop n (drop n xs)"

definition embeddings_at_level ::
  "Encoder \<Rightarrow> string \<Rightarrow> ten3 \<Rightarrow> error + embeddings \<times> nat list" where
  \<comment> \<open>lines 622 to 642: the output and its expected size\<close>
  "embeddings_at_level encoder1 level embeddings_raw =
     (if level = ''mean'' then
        (case Encoder_getattr encoder1 ''B'' of
           Inr (IntAttr n) \<Rightarrow>
             Inr (MeanEmbeddings (map (\<lambda>sample. map mean (transpose sample)) embeddings_raw),
                  [n, 768])
         | Inr _ \<Rightarrow> Inl TypeError
         | Inl e \<Rightarrow> Inl e)
      else if sublist level ''patch'' then
        (if list_all (\<lambda>sample. length sample = 256) embeddings_raw then
           (case Encoder_getattr encoder1 ''B'' of
              Inr (IntAttr n) \<Rightarrow>
                Inr (PatchEmbeddings (map (chop 15) embeddings_raw), [n, 16, 16, 768])
            | Inr _ \<Rightarrow> Inl TypeError
            | Inl e \<Rightarrow> Inl e)
         else Inl EinopsError)
      else Inl (ValueError (''Value '' @ level
                            @ '' no allowed. Choose one from mean, patch, or group'')))"

definition embeddings_shape :: "embeddings \<Rightarrow> nat list" where
  "embeddings_shape emb =
     (case emb of
        MeanEmbeddings m \<Rightarrow> [length m, dim1 m]
      | PatchEmbeddings t \<Rightarrow> [length t, dim1 t, dim2 t, dim2 (concat t)])"

definition predict_step ::
  "posemb_fun \<Rightarrow> (string \<Rightarrow> GeoDataFrame \<Rightarrow> GeoDataFrame) \<Rightarrow> ClayMAEModule
     \<Rightarrow> (nat \<Rightarrow> nat \<Rightarrow> rat) \<Rightarrow> batch \<Rightarrow> error + GeoDataFrame" where
  "predict_step posemb to_crs self randn batch' =
     (let bboxes = bbox batch';
          epsgs = epsg batch';
          dates = date batch';
          source_urls = source_url batch';
          encoder0 = (encoder (model self))\<lparr>Encoder.mask_ratio := 0\<rparr>
      in
      case Encoder_forward posemb encoder0 randn batch' of
        Inl e \<Rightarrow> Inl e
      | Inr (encoder1, embeddings_raw, unmasked_indices, masked_indices, masked_matrix) \<Rightarrow>
      case Encoder_getattr encoder1 ''B'' of
        Inl e \<Rightarrow> Inl e
      | Inr b \<Rightarrow>
      case b of
        IntAttr n \<Rightarrow>
          if shape3 embeddings_raw \<noteq> [n, 256, 768] then Inl AssertionError
          else
          (case embeddings_at_level encoder1 (embeddings_level (hparams self)) embeddings_raw of
             Inl e \<Rightarrow> Inl e
           | Inr (embeddings_output, expected_size) \<Rightarrow>
               if embeddings_shape embeddings_output \<noteq> expected_size then Inl AssertionError
               else if length (remdups epsgs) \<noteq> 1 then Inl NotImplementedError
               else
               (case column bboxes 0 of Inl e \<Rightarrow> Inl e | Inr xmin \<Rightarrow>
                case column bboxes 1 of Inl e \<Rightarrow> Inl e | Inr ymin \<Rightarrow>
                case column bboxes 2 of Inl e \<Rightarrow> Inl e | Inr xmax \<Rightarrow>
                case column bboxes 3 of Inl e \<Rightarrow> Inl e | Inr ymax \<Rightarrow>
                  Inr (to_crs ''OGC:CRS84''
                         \<lparr>source_url_column = source_urls,
                          date_column = dates,
                          embeddings_column = embeddings_output,
                          geometry = zip xmin (zip ymin (zip xmax ymax)),
                          crs = ''EPSG:'' @ show_int (hd epsgs)\<rparr>)))
      | _ \<Rightarrow> Inl TypeError)"

section \<open>Contracts of the collaborators\<close>

text \<open>
  The forward pass calls modules whose code is outside the source file. The shapes of its
  results are proved for collaborators that return tensors of the shapes their interface
  descriptions state.
\<close>

definition posemb_ok :: "posemb_fun \<Rightarrow> bool" where
  \<comment> \<open>Modelled from the spec: \<^verbatim>\<open>posemb_sincos_2d_with_gsd\<close> of \<^verbatim>\<open>src.utils\<close> is missing; the
      spec gives it as \<^verbatim>\<open>positions(grid_height, grid_width, width, ground_sample_distance)\<close>
      returning a matrix of shape \<open>(grid_height * grid_width, width)\<close>.\<close>
  "posemb_ok posemb =
     (\<forall>h w d g. 0 \<le> d \<longrightarrow> (\<exists>m. posemb h w d g = Inr m \<and> is_mat (h * w) (nat d) m))"

definition patch_embedding_ok :: "nat \<Rightarrow> nat \<Rightarrow> (ten4 \<Rightarrow> vec \<Rightarrow> error + ten3 \<times> mat) \<Rightarrow> bool" where
  \<comment> \<open>Modelled from the spec: \<^verbatim>\<open>DynamicEmbedding\<close> of \<^verbatim>\<open>src.factory\<close> is missing; in its
      encoding mode it maps a pixel cube \<open>(B, C, H, W)\<close> and \<open>C > 0\<close> wavelengths to patch
      embeddings \<open>(B, L, D)\<close> with \<open>L = (H / patch) * (W / patch)\<close>.\<close>
  "patch_embedding_ok P D f =
     (\<forall>cube w B C H W.
        is_ten4 B C H W cube \<and> 0 < C \<and> length w = C \<and> P dvd H \<and> P dvd W \<longrightarrow>
        (\<exists>p we. f cube w = Inr (p, we) \<and> is_ten3 B ((H div P) * (W div P)) D p))"

definition embed_to_pixels_ok :: "nat \<Rightarrow> nat \<Rightarrow> (ten3 \<Rightarrow> vec \<Rightarrow> error + ten3 \<times> mat) \<Rightarrow> bool" where
  \<comment> \<open>Modelled from the spec: \<^verbatim>\<open>DynamicEmbedding\<close> of \<^verbatim>\<open>src.factory\<close> is missing; in its
      decoding mode it maps embeddings \<open>(B, N, D)\<close> and \<open>C\<close> wavelengths to pixel patches
      \<open>(B, N, C * patch * patch)\<close>.\<close>
  "embed_to_pixels_ok P D f =
     (\<forall>x w B N.
        is_ten3 B N D x \<longrightarrow> (\<exists>px we. f x w = Inr (px, we) \<and> is_ten3 B N (length w * P * P) px))"

definition shape_preserving :: "(ten3 \<Rightarrow> error + ten3) \<Rightarrow> bool" where
  \<comment> \<open>a transformer stack of \<^verbatim>\<open>vit_pytorch\<close> returns a tensor of the shape of its input\<close>
  "shape_preserving f =
     (\<forall>x B N D. is_ten3 B N D x \<longrightarrow> (\<exists>y. f x = Inr y \<and> is_ten3 B N D y))"

definition maps_width :: "nat \<Rightarrow> nat \<Rightarrow> (ten3 \<Rightarrow> error + ten3) \<Rightarrow> bool" where
  \<comment> \<open>\<^verbatim>\<open>nn.Linear(E, D)\<close> maps the last dimension from \<open>E\<close> to \<open>D\<close>\<close>
  "maps_width E D f =
     (\<forall>x B N. is_ten3 B N E x \<longrightarrow> (\<exists>y. f x = Inr y \<and> is_ten3 B N D y))"

definition encoder_ok :: "Encoder \<Rightarrow> bool" where
  "encoder_ok self =
     (patch_embedding_ok (Encoder.patch_size self) (Encoder.dim self) (patch_embedding self)
      \<and> shape_preserving (Encoder.transformer self)
      \<and> length (cls_token self) = Encoder.dim self
      \<and> 8 \<le> Encoder.dim self)"

definition decoder_ok :: "Decoder \<Rightarrow> bool" where
  "decoder_ok self =
     (maps_width (encoder_dim self) (Decoder.dim self) (enc_to_dec self)
      \<and> shape_preserving (Decoder.transformer self)
      \<and> embed_to_pixels_ok (Decoder.patch_size self) (Decoder.dim self) (embed_to_pixels self)
      \<and> length (mask_patch self) = Decoder.dim self
      \<and> 8 \<le> Decoder.dim self)"

definition library_ok :: "library \<Rightarrow> bool" where
  "library_ok lib =
     ((\<forall>wave_dim latent P D. patch_embedding_ok P D (DynamicEmbedding_encode lib wave_dim latent P D))
      \<and> (\<forall>wave_dim latent P D. embed_to_pixels_ok P D (DynamicEmbedding_decode lib wave_dim latent P D))
      \<and> (\<forall>D depth heads dim_head mlp_dim.
            shape_preserving (Transformer lib D depth heads dim_head mlp_dim))
      \<and> (\<forall>E D. maps_width E D (Linear lib E D))
      \<and> (\<forall>D. length (randn_cls_token lib D) = D)
      \<and> (\<forall>D. length (randn_mask_patch lib D) = D))"

definition model_ok :: "ClayMAE \<Rightarrow> bool" where
  \<comment> \<open>what \<^verbatim>\<open>ClayMAE.__init__\<close> establishes: both halves are built from the same mask
      ratio and patch size, and the decoder's input width is the encoder's width\<close>
  "model_ok self =
     (encoder_ok (encoder self) \<and> decoder_ok (decoder self)
      \<and> encoder_dim (decoder self) = Encoder.dim (encoder self)
      \<and> Encoder.patch_size (encoder self) = ClayMAE.patch_size self
      \<and> Decoder.patch_size (decoder self) = ClayMAE.patch_size self
      \<and> Encoder.mask_ratio (encoder self) = ClayMAE.mask_ratio self
      \<and> Decoder.mask_ratio (decoder self) = ClayMAE.mask_ratio self)"

definition datacube_ok :: "nat \<Rightarrow> nat \<Rightarrow> nat \<Rightarrow> nat \<Rightarrow> 'a datacube_scheme \<Rightarrow> bool" where
  \<comment> \<open>the input contract: \<open>pixels\<close> \<open>(B, C, H, W)\<close>, \<open>time\<close> and \<open>latlon\<close> \<open>(B, 2)\<close>, \<open>gsd\<close> \<open>(B, 1)\<close>,
      \<open>waves\<close> \<open>(B, C)\<close>\<close>
  "datacube_ok B C H W dc =
     (is_ten4 B C H W (pixels dc) \<and> is_mat B 2 (time dc) \<and> is_mat B 2 (latlon dc)
      \<and> is_mat B 1 (gsd dc) \<and> is_mat B C (waves dc))"

subsection \<open>Sample inputs of the masking\<close>

definition sample_noise :: "nat \<Rightarrow> nat \<Rightarrow> rat" where
  \<comment> \<open>numbers drawn for two samples of four patches\<close>
  "sample_noise b j = (if b = 0 then [3 / 10, - 6 / 5, 1 / 2, 1 / 10] ! j else [2, 1, - 1 / 2, 0] ! j)"

definition masking_encoder :: "rat \<Rightarrow> nat \<Rightarrow> bool \<Rightarrow> Encoder" where
  \<comment> \<open>an encoder of width 9 after \<^verbatim>\<open>add_encodings\<close> has stored \<open>num_patches = n\<close>; its
      submodules, which \<open>mask_out\<close> does not call, pass their input through\<close>
  "masking_encoder r n t =
     \<lparr>Encoder.mask_ratio = r, patch_size = 16, dim = 9, cls_token = replicate 9 0,
      patch_embedding = (\<lambda>cube waves. Inr (map concat cube, [])),
      transformer = Inr, num_patches = Some n, training = t\<rparr>"

definition sample_patches :: ten3 where
  \<comment> \<open>two samples of four patches of width one\<close>
  "sample_patches = [[[1], [2], [3], [4]], [[5], [6], [7], [8]]]"

subsection \<open>Sample collaborators and inputs\<close>

definition sample_library :: library where
  \<comment> \<open>collaborators that return zero tensors of the contracted shapes\<close>
  "sample_library =
     \<lparr>DynamicEmbedding_encode =
        (\<lambda>wave_dim latent P D cube w.
           Inr (map (\<lambda>img. replicate ((dim1 img div P) * (dim2 img div P)) (replicate D 0)) cube,
                [])),
      DynamicEmbedding_decode =
        (\<lambda>wave_dim latent P D x w. Inr (map (map (\<lambda>v. replicate (length w * P * P) 0)) x, [w])),
      Transformer = (\<lambda>D depth heads dim_head mlp_dim. Inr),
      Linear = (\<lambda>E D x. Inr (map (map (\<lambda>v. replicate D 0)) x)),
      randn_cls_token = (\<lambda>D. replicate D 0),
      randn_mask_patch = (\<lambda>D. replicate D 0)\<rparr>"

definition sample_posemb :: posemb_fun where
  "sample_posemb h w d g =
     (if d < 0 then Inl RuntimeError else Inr (replicate (h * w) (replicate (nat d) 0)))"

definition sample_datacube :: "nat \<Rightarrow> nat \<Rightarrow> nat \<Rightarrow> nat \<Rightarrow> datacube" where
  "sample_datacube B C H W =
     \<lparr>pixels = replicate B (replicate C (replicate H (replicate W 1))),
      time = replicate B [6, 13],
      latlon = replicate B [0, 0],
      gsd = replicate B [10],
      waves = replicate B (replicate C 1)\<rparr>"

definition sample_batch :: batch where
  "sample_batch =
     \<lparr>pixels = replicate 2 (replicate 4 (replicate 32 (replicate 32 1))),
      time = replicate 2 [6, 13],
      latlon = replicate 2 [0, 0],
      gsd = replicate 2 [10],
      waves = replicate 2 (replicate 4 1),
      bbox = replicate 2 [0, 0, 1, 1],
      epsg = [32610, 32610],
      date = [''2022-12-12'', ''2022-12-12''],
      source_url = [''s3://1.tif'', ''s3://2.tif'']\<rparr>"

section \<open>Properties of the metadata encoder\<close>

lemma column_rows2: "column [[a, b]] 0 = Inr [a]" "column [[a, b]] (Suc 0) = Inr [b]"
  by (simp_all add: column_def)

text \<open>
  C3. With both flags true, \<open>encode_metadata\<close> should return the eight sine and cosine
  values of latitude, longitude, hour and week. At hour 6, week 13 on the equator the
  source leaves the time block at zero: the time branch is guarded by \<^verbatim>\<open>not has_time\<close>,
  whereas its sibling is guarded by \<^verbatim>\<open>has_lat_lon\<close>.
\<close>

theorem encode_metadata_time_block_zeroed:
  "encode_metadata [[6, 13]] [[0, 0]] True True = Inr [[0, 1, 0, 1, 0, 0, 0, 0]]
   \<and> metadata_row_spec [6, 13] [0, 0] = [0, 1, 0, 1, 1, 0, 1, 0]"
  by (simp add: encode_metadata_def encode_latlon_block_def column_rows2 set_column_def
      fill_columns_def metadata_row_spec_def eval_nat_numeral)

section \<open>Properties of sorting and slicing\<close>

lemma mset_argsort: "mset (argsort xs) = mset [0..<length xs]"
  by (simp add: argsort_def)

lemma length_argsort: "length (argsort xs) = length xs"
  by (simp add: argsort_def)

lemma set_argsort: "set (argsort xs) = {0..<length xs}"
  by (simp add: argsort_def)

lemma distinct_argsort: "distinct (argsort xs)"
  by (simp add: argsort_def)

lemma sorted_argsort: "sorted (map (\<lambda>i. xs ! i) (argsort xs))"
  by (simp add: argsort_def)

lemma argsort_sorted_id:
  assumes "sorted xs"
  shows "argsort xs = [0..<length xs]"
proof -
  have "map (\<lambda>i. xs ! i) [0..<length xs] = xs"
    by (simp add: map_nth)
  then have "sorted (map (\<lambda>i. xs ! i) [0..<length xs])"
    using assms by simp
  then show ?thesis
    unfolding argsort_def by (rule sort_key_id_if_sorted)
qed

lemma sorted_mset_upt:
  assumes "mset ys = mset [0..<n]" "sorted ys"
  shows "ys = [0..<n]"
proof -
  have "sort [0..<n] = ys" using assms by (intro properties_for_sort) auto
  then show ?thesis by (simp add: sorted_sort_id)
qed

lemma argsort_inverse:
  assumes p: "mset p = mset [0..<n]" and j: "j < n"
  shows "argsort p ! j < n" "p ! (argsort p ! j) = j"
proof -
  have len: "length p = n" using p by (metis length_upt mset_eq_length minus_nat.diff_0)
  let ?q = "argsort p"
  have "mset (map (\<lambda>i. p ! i) ?q) = image_mset (\<lambda>i. p ! i) (mset [0..<length p])"
    by (simp add: mset_argsort)
  also have "\<dots> = mset (map (\<lambda>i. p ! i) [0..<length p])" by simp
  also have "\<dots> = mset p" by (simp add: map_nth)
  finally have "mset (map (\<lambda>i. p ! i) ?q) = mset [0..<n]" using p by simp
  then have eq: "map (\<lambda>i. p ! i) ?q = [0..<n]"
    using sorted_argsort[of p] by (rule sorted_mset_upt)
  have lq: "length ?q = n" by (simp add: length_argsort len)
  have "?q ! j \<in> set ?q" using j lq by simp
  then show "?q ! j < n" by (simp add: set_argsort len)
  have "map (\<lambda>i. p ! i) ?q ! j = [0..<n] ! j" using eq by simp
  then show "p ! (?q ! j) = j" using j lq by simp
qed

lemma slice_append: "slice_to n xs @ slice_from n xs = xs"
  by (simp add: slice_to_def slice_from_def)

lemma slice_bound_le: "slice_bound n L \<le> L"
  by (auto simp: slice_bound_def)

lemma slice_bound_nat: "0 \<le> n \<Longrightarrow> n \<le> int L \<Longrightarrow> slice_bound n L = nat n"
  by (simp add: slice_bound_def)


lemma eval_noise_row_sorted: "sorted (map (\<lambda>j. b * L + j) [0..<L])"
  by (simp add: sorted_map)

lemma argsort_eval_noise:
  "map argsort (eval_noise B L) = replicate B [0..<L]"
proof -
  have "argsort (map (\<lambda>j. b * L + j) [0..<L]) = [0..<L]" for b
    using argsort_sorted_id[OF eval_noise_row_sorted[of b L]] by simp
  then show ?thesis
    by (simp add: eval_noise_def map_replicate_const comp_def)
qed

lemma argsort_train_noise:
  "r \<in> set (map argsort (train_noise randn B L)) \<Longrightarrow> mset r = mset [0..<L]"
  by (auto simp: train_noise_def mset_argsort)

lemma random_indices_perm:
  assumes "r \<in> set (if t then map argsort (train_noise randn B L) else map argsort (eval_noise B L))"
  shows "mset r = mset [0..<L]"
  using assms argsort_train_noise[of r randn B L]
  by (auto simp: argsort_eval_noise split: if_splits)

section \<open>Properties of the float product\<close>

lemma pow2_powi: "pow2 k = 2 powi k"
  by (simp add: pow2_def power_int_def inverse_eq_divide power_one_over)

lemma pow2_pos: "0 < pow2 k"
  by (simp add: pow2_powi)

lemma pow2_mono: "a \<le> b \<Longrightarrow> pow2 a \<le> pow2 b"
  by (simp add: pow2_powi power_int_increasing)

lemma pow2_nat: "pow2 (int n) = 2 ^ n"
  by (simp add: pow2_def)

lemma pow2_diff_nat: "pow2 (int m - int n) = 2 ^ m / 2 ^ n"
proof -
  have "pow2 (int m - int n) = 2 powi (int m) / 2 powi (int n)"
    by (simp add: pow2_powi power_int_diff)
  then show ?thesis by simp
qed

lemma pow2_neg_mult: "0 \<le> k \<Longrightarrow> pow2 (- k) * 2 ^ nat k = 1"
  by (simp add: pow2_def)

lemma round_half_even_of_int: "round_half_even (of_int k) = k"
  by (simp add: round_half_even_def)

lemma round_half_even_le:
  assumes "x \<le> of_int k"
  shows "round_half_even x \<le> k"
proof (cases "x = of_int k")
  case True
  then show ?thesis by (simp add: round_half_even_of_int)
next
  case False
  then have "x < of_int k" using assms by simp
  then have "\<lfloor>x\<rfloor> < k" by (simp add: floor_less_iff)
  then show ?thesis by (simp add: round_half_even_def Let_def)
qed

lemma round_half_even_nonneg: "0 \<le> x \<Longrightarrow> 0 \<le> round_half_even x"
  by (simp add: round_half_even_def Let_def)

lemma binary_exponent_le:
  assumes "0 < x"
  shows "pow2 (binary_exponent x) \<le> x"
proof -
  obtain a b where q: "quotient_of x = (a, b)" by (cases "quotient_of x")
  have b: "0 < b" using q by (rule quotient_of_denom_pos)
  have x: "x = of_int a / of_int b" using q by (rule quotient_of_div)
  have a: "0 < a" using assms b x by (simp add: zero_less_divide_iff)
  define k where "k = bitlen a - bitlen b"
  show ?thesis
  proof (cases "pow2 k \<le> x")
    case True
    then show ?thesis by (simp add: binary_exponent_def q k_def)
  next
    case False
    have la: "(2::int) ^ nat (bitlen a - 1) \<le> a" using bitlen_bounds[OF a] by simp
    have lb: "b < 2 ^ nat (bitlen b)" using bitlen_bounds[OF b] by simp
    have pa: "0 < bitlen a" using a bitlen_nonneg[of a] bitlen_eq_zero_iff[of a] by linarith
    have pb: "0 < bitlen b" using b bitlen_nonneg[of b] bitlen_eq_zero_iff[of b] by linarith
    have "k - 1 = int (nat (bitlen a - 1)) - int (nat (bitlen b))"
      using pa pb by (simp add: k_def)
    then have "pow2 (k - 1) = 2 ^ nat (bitlen a - 1) / 2 ^ nat (bitlen b)"
      by (simp only: pow2_diff_nat)
    also have "\<dots> \<le> of_int a / 2 ^ nat (bitlen b)"
    proof -
      have "(of_int (2 ^ nat (bitlen a - 1)) :: rat) \<le> of_int a" using la by (simp only: of_int_le_iff)
      then show ?thesis by (simp add: divide_right_mono)
    qed
    also have "\<dots> \<le> of_int a / of_int b"
    proof -
      have "(of_int b :: rat) \<le> of_int (2 ^ nat (bitlen b))" using lb by (simp only: of_int_le_iff)
      then show ?thesis using a b by (simp add: frac_le)
    qed
    finally have "pow2 (k - 1) \<le> x" using x by simp
    then show ?thesis using False by (simp add: binary_exponent_def q k_def)
  qed
qed

lemma round_double_nonneg: "0 \<le> x \<Longrightarrow> 0 \<le> round_double x"
  using pow2_pos[of "binary_exponent \<bar>x\<bar> - 52"]
  by (auto simp: round_double_def Let_def intro!: mult_nonneg_nonneg round_half_even_nonneg)

lemma round_double_scale:
  assumes x: "0 < x" "x \<le> of_nat n" and n: "n < 2 ^ 53"
  obtains k where "round_double x = of_int (round_half_even (x * 2 ^ k)) / 2 ^ k"
proof -
  let ?e = "binary_exponent x"
  have "pow2 ?e \<le> of_nat n" using binary_exponent_le[OF x(1)] x(2) by simp
  also have "(of_nat n :: rat) < 2 ^ 53" using n by (metis of_nat_less_iff of_nat_numeral of_nat_power)
  finally have "pow2 ?e < pow2 53" by (simp add: pow2_def)
  then have e: "?e < 53" using pow2_mono[of 53 ?e] by (cases "?e < 53") auto
  define k where "k = nat (52 - ?e)"
  have u: "pow2 (?e - 52) = 1 / 2 ^ k"
    using e by (auto simp: pow2_def k_def)
  have "round_double x = of_int (round_half_even (x * 2 ^ k)) / 2 ^ k"
    using x(1) by (simp add: round_double_def Let_def u)
  then show ?thesis by (rule that)
qed

lemma round_double_le_nat:
  assumes x: "0 \<le> x" "x \<le> of_nat n" and n: "n < 2 ^ 53"
  shows "round_double x \<le> of_nat n"
proof (cases "x = 0")
  case True
  then show ?thesis by (simp add: round_double_def)
next
  case False
  then have "0 < x" using x by simp
  then obtain k where k: "round_double x = of_int (round_half_even (x * 2 ^ k)) / 2 ^ k"
    using x n round_double_scale by blast
  have "x * 2 ^ k \<le> of_int (int n * 2 ^ k)" using x(2) by simp
  then have "round_half_even (x * 2 ^ k) \<le> int n * 2 ^ k" by (rule round_half_even_le)
  then have "(of_int (round_half_even (x * 2 ^ k)) :: rat) \<le> of_int (int n * 2 ^ k)"
    by (simp only: of_int_le_iff)
  then have "(of_int (round_half_even (x * 2 ^ k)) :: rat) \<le> of_nat n * 2 ^ k"
    by simp
  then have "(of_int (round_half_even (x * 2 ^ k)) :: rat) / 2 ^ k \<le> of_nat n"
    by (simp add: pos_divide_le_eq)
  then show ?thesis using k by simp
qed

lemma round_double_of_nat:
  assumes "n < 2 ^ 53"
  shows "round_double (of_nat n) = of_nat n"
proof (cases "n = 0")
  case True
  then show ?thesis by (simp add: round_double_def)
next
  case False
  then have "(0::rat) < of_nat n" by simp
  then obtain k where k: "round_double (of_nat n) = of_int (round_half_even (of_nat n * 2 ^ k)) / 2 ^ k"
    using assms round_double_scale[of "of_nat n" n] by blast
  have "(of_nat n :: rat) * 2 ^ k = of_int (int n * 2 ^ k)" by simp
  then have "round_half_even (of_nat n * 2 ^ k) = int n * 2 ^ k"
    by (simp only: round_half_even_of_int)
  then show ?thesis using k by simp
qed

lemma num_masked_bounds:
  assumes r: "0 \<le> r" "r \<le> 1" and n: "n < 2 ^ 53"
  shows "0 \<le> num_masked r n" "num_masked r n \<le> int n"
proof -
  have p: "0 \<le> r * of_nat n" "r * of_nat n \<le> of_nat n"
    using r by (simp_all add: mult_left_le_one_le)
  have f: "float_mul_int r n = round_double (r * of_nat n)"
    by (simp add: float_mul_int_def round_double_of_nat[OF n])
  have lo: "0 \<le> float_mul_int r n" unfolding f using p(1) by (rule round_double_nonneg)
  have hi: "float_mul_int r n \<le> of_nat n" unfolding f using p n by (rule round_double_le_nat)
  show "0 \<le> num_masked r n" using lo by (simp add: num_masked_def py_int_def)
  have "\<lfloor>float_mul_int r n\<rfloor> \<le> \<lfloor>(of_nat n :: rat)\<rfloor>" using hi by (rule floor_mono)
  then show "num_masked r n \<le> int n" using lo by (simp add: num_masked_def py_int_def)
qed

lemma isqrt_sq_le: "isqrt n * isqrt n \<le> n"
  by (induction n) (auto simp: Let_def)

lemma isqrt_lt: "n < Suc (isqrt n) * Suc (isqrt n)"
  by (induction n) (auto simp: Let_def)

lemma isqrt_square: "isqrt (k * k) = k"
proof -
  let ?r = "isqrt (k * k)"
  have "?r\<^sup>2 \<le> k\<^sup>2" using isqrt_sq_le[of "k * k"] by (simp add: power2_eq_square)
  then have a: "?r \<le> k" by (simp only: power2_nat_le_eq_le)
  have "k\<^sup>2 < (Suc ?r)\<^sup>2" using isqrt_lt[of "k * k"] by (simp add: power2_eq_square)
  then have b: "k < Suc ?r" by (rule power2_less_imp_less) simp
  show ?thesis using a b by simp
qed

section \<open>Properties of the masking\<close>

lemma length_random_indices: "length (random_indices_of self randn B L) = B"
  by (simp add: random_indices_of_def train_noise_def eval_noise_def)

lemma random_indices_nth_perm:
  "b < B \<Longrightarrow> mset (random_indices_of self randn B L ! b) = mset [0..<L]"
  using random_indices_perm[of "random_indices_of self randn B L ! b" "training self" randn B L]
    length_random_indices[of self randn B L]
  by (simp add: random_indices_of_def)

lemma mask_out_unfold:
  assumes "num_patches self = Some np"
  shows "mask_out self randn patches =
     Inr (map2 gather patches
            (map (slice_from (num_masked (Encoder.mask_ratio self) np))
               (random_indices_of self randn (length patches) (dim1 patches))),
          map (slice_from (num_masked (Encoder.mask_ratio self) np))
            (random_indices_of self randn (length patches) (dim1 patches)),
          map (slice_to (num_masked (Encoder.mask_ratio self) np))
            (random_indices_of self randn (length patches) (dim1 patches)),
          map (gather (structured_mask (num_masked (Encoder.mask_ratio self) np) (dim1 patches)))
            (map argsort (random_indices_of self randn (length patches) (dim1 patches))))"
  using assms by (simp add: mask_out_def random_indices_of_def Let_def)

lemma dim1_rows: "list_all (\<lambda>row. length row = L) t \<Longrightarrow> t \<noteq> [] \<Longrightarrow> dim1 t = L"
  by (cases t) (simp_all add: dim1_def)

lemma perm_upt_facts:
  assumes "mset p = mset [0..<L]"
  shows "length p = L" "distinct p" "set p = {0..<L}"
proof -
  show "length p = L" using assms by (metis length_upt mset_eq_length minus_nat.diff_0)
  show "distinct p" using assms by (metis distinct_upt mset_eq_imp_distinct_iff)
  show "set p = {0..<L}" using assms by (metis mset_eq_setD set_upt)
qed

lemma structured_mask_nth:
  "i < L \<Longrightarrow> structured_mask n L ! i = (if i < slice_bound n L then 1 else 0)"
  using slice_bound_le[of n L] by (simp add: structured_mask_def nth_append)

lemma length_structured_mask: "length (structured_mask n L) = L"
  using slice_bound_le[of n L] by (simp add: structured_mask_def)

lemma masked_row:
  assumes p: "mset p = mset [0..<L]" and j: "j < L"
  shows "gather (structured_mask n L) (argsort p) ! j = (if j \<in> set (slice_to n p) then 1 else 0)"
proof -
  let ?q = "argsort p" and ?c = "slice_bound n L"
  note pf = perm_upt_facts[OF p]
  have q: "?q ! j < L" "p ! (?q ! j) = j" using argsort_inverse[OF p j] by simp_all
  have lq: "length ?q = L" by (simp add: length_argsort pf)
  have c: "?c \<le> L" by (rule slice_bound_le)
  have iff: "j \<in> set (take ?c p) \<longleftrightarrow> ?q ! j < ?c"
  proof
    assume "j \<in> set (take ?c p)"
    then obtain i where i: "i < length (take ?c p)" "take ?c p ! i = j"
      by (auto simp: in_set_conv_nth)
    then have ic: "i < ?c" "i < L" "p ! i = j" using c pf(1) by simp_all
    then have "p ! i = p ! (?q ! j)" using q by simp
    then have "i = ?q ! j" using pf(1,2) ic(2) q(1) by (simp add: nth_eq_iff_index_eq)
    then show "?q ! j < ?c" using ic by simp
  next
    assume lt: "?q ! j < ?c"
    then have "take ?c p ! (?q ! j) = j" using q by simp
    moreover have "?q ! j < length (take ?c p)" using lt c pf(1) by simp
    ultimately show "j \<in> set (take ?c p)" by (metis nth_mem)
  qed
  have "gather (structured_mask n L) ?q ! j = structured_mask n L ! (?q ! j)"
    using j lq by (simp add: gather_def)
  also have "\<dots> = (if ?q ! j < ?c then 1 else 0)" using q(1) by (rule structured_mask_nth)
  finally show ?thesis using iff by (simp add: slice_to_def pf(1))
qed

lemma slices_disjoint:
  assumes "distinct p"
  shows "set (slice_to n p) \<inter> set (slice_from n p) = {}"
  using assms distinct_append[of "slice_to n p" "slice_from n p"] by (simp add: slice_append)

lemma length_slice_to: "0 \<le> n \<Longrightarrow> n \<le> int (length xs) \<Longrightarrow> length (slice_to n xs) = nat n"
  by (simp add: slice_to_def slice_bound_nat)

lemma num_masked_within:
  assumes "0 \<le> r" "r < 1" "n \<le> L" "L < 2 ^ 53"
  shows "0 \<le> num_masked r n" "num_masked r n \<le> int L"
proof -
  have n: "n < 2 ^ 53" using assms(3,4) by simp
  have r: "r \<le> 1" using assms(2) by simp
  show "0 \<le> num_masked r n" using assms(1) r n by (rule num_masked_bounds)
  have "num_masked r n \<le> int n" using assms(1) r n by (rule num_masked_bounds)
  also have "int n \<le> int L" using assms(3) by (simp only: of_nat_le_iff)
  finally show "num_masked r n \<le> int L" .
qed

text \<open>
  C1, as the source has it. For \<open>B\<close> samples of \<open>L\<close> patches and a mask ratio in \<open>[0, 1)\<close>,
  \<open>mask_out\<close> returns, and for every sample the masked indices followed by the unmasked
  indices hold every index of \<open>0..L-1\<close> exactly once. The number of masked indices is
  \<^verbatim>\<open>int(mask_ratio * num_patches)\<close>, the product truncated and not rounded, where
  \<open>num_patches\<close> is the square \<^verbatim>\<open>int(math.sqrt(L))**2\<close> that \<^verbatim>\<open>add_encodings\<close> stored.
\<close>

theorem mask_out_partition:
  assumes shape: "list_all (\<lambda>row. length row = L) patches"
    and np: "num_patches self = Some (isqrt L * isqrt L)"
    and ratio: "0 \<le> Encoder.mask_ratio self" "Encoder.mask_ratio self < 1"
    and small: "L < 2 ^ 53"
  shows "\<exists>up ui mi mm.
           mask_out self randn patches = Inr (up, ui, mi, mm)
           \<and> length mi = length patches \<and> length ui = length patches
           \<and> (\<forall>b<length patches.
                 mset (mi ! b @ ui ! b) = mset [0..<L]
                 \<and> int (length (mi ! b)) = num_masked (Encoder.mask_ratio self) (isqrt L * isqrt L)
                 \<and> length (mi ! b) + length (ui ! b) = L)"
proof -
  let ?n = "num_masked (Encoder.mask_ratio self) (isqrt L * isqrt L)"
  let ?R = "random_indices_of self randn (length patches) (dim1 patches)"
  have le: "isqrt L * isqrt L \<le> L" by (rule isqrt_sq_le)
  have n: "0 \<le> ?n" "?n \<le> int L"
    using num_masked_within[OF ratio le small] by simp_all
  have rows: "mset (map (slice_to ?n) ?R ! b @ map (slice_from ?n) ?R ! b) = mset [0..<L]
      \<and> int (length (map (slice_to ?n) ?R ! b)) = ?n
      \<and> length (map (slice_to ?n) ?R ! b) + length (map (slice_from ?n) ?R ! b) = L"
    if b: "b < length patches" for b
  proof -
    have ne: "patches \<noteq> []" using b by auto
    have d: "dim1 patches = L" using shape ne by (rule dim1_rows)
    have p: "mset (?R ! b) = mset [0..<L]" using random_indices_nth_perm[OF b] d by simp
    have l: "length (?R ! b) = L" using p by (rule perm_upt_facts)
    have "length (slice_to ?n (?R ! b)) = nat ?n" using n l by (simp add: length_slice_to)
    moreover have "length (slice_to ?n (?R ! b)) + length (slice_from ?n (?R ! b)) = L"
      using l by (metis length_append slice_append)
    ultimately show ?thesis
      using b n p by (simp add: length_random_indices slice_append del: mset_append)
  qed
  show ?thesis
    unfolding mask_out_unfold[OF np] using rows by (simp add: length_random_indices)
qed

theorem mask_out_partition_witness:
  "list_all (\<lambda>row. length row = 4) sample_patches
   \<and> num_patches (masking_encoder (3 / 4) 4 True) = Some (isqrt 4 * isqrt 4)
   \<and> 0 \<le> Encoder.mask_ratio (masking_encoder (3 / 4) 4 True)
   \<and> Encoder.mask_ratio (masking_encoder (3 / 4) 4 True) < 1
   \<and> (4::nat) < 2 ^ 53
   \<and> (\<exists>up ui mi mm.
         mask_out (masking_encoder (3 / 4) 4 True) sample_noise sample_patches
           = Inr (up, ui, mi, mm)
         \<and> length mi = length sample_patches \<and> length ui = length sample_patches
         \<and> (\<forall>b<length sample_patches.
               mset (mi ! b @ ui ! b) = mset [0..<4]
               \<and> int (length (mi ! b))
                   = num_masked (Encoder.mask_ratio (masking_encoder (3 / 4) 4 True)) (isqrt 4 * isqrt 4)
               \<and> length (mi ! b) + length (ui ! b) = 4))"
proof -
  have h1: "list_all (\<lambda>row. length row = 4) sample_patches"
    by (simp add: sample_patches_def)
  have h2: "num_patches (masking_encoder (3 / 4) 4 True) = Some (isqrt 4 * isqrt 4)"
    by (simp add: masking_encoder_def eval_nat_numeral)
  have h3: "0 \<le> Encoder.mask_ratio (masking_encoder (3 / 4) 4 True)"
    by (simp add: masking_encoder_def)
  have h4: "Encoder.mask_ratio (masking_encoder (3 / 4) 4 True) < 1"
    by (simp add: masking_encoder_def)
  have h5: "(4::nat) < 2 ^ 53" by simp
  show ?thesis
    using mask_out_partition[OF h1 h2 h3 h4 h5, of sample_noise] h1 h2 h3 h4 h5 by blast
qed

text \<open>
  C1, as the specification states it, asks for \<^verbatim>\<open>round(mask_ratio * L)\<close> masked indices.
  With \<open>mask_ratio = 0.75\<close> and \<open>L = 9\<close> the product is 6.75: the source masks 6 patches,
  and rounding gives 7.
\<close>

theorem mask_out_count_not_rounded:
  "mask_out (masking_encoder (3 / 4) 9 False) sample_noise [replicate 9 [0]]
     = Inr ([[[0], [0], [0]]], [[6, 7, 8]], [[0, 1, 2, 3, 4, 5]],
            [[1, 1, 1, 1, 1, 1, 0, 0, 0]])
   \<and> isqrt 9 * isqrt 9 = 9
   \<and> length [0, 1, 2, 3, 4, 5 :: nat] = 6
   \<and> py_round (3 / 4 * 9) = 7"
  by code_simp

text \<open>
  C6. The dense mask agrees with the index lists: it has one row of length \<open>L\<close> per
  sample, its entry at patch \<open>j\<close> is 1 when \<open>j\<close> is a masked index and 0 otherwise, and
  \<open>j\<close> is an unmasked index exactly when it is not a masked one.
\<close>

theorem mask_out_matrix_consistent:
  assumes out: "mask_out self randn patches = Inr (up, ui, mi, mm)"
    and shape: "list_all (\<lambda>row. length row = L) patches"
    and b: "b < length patches"
  shows "length mm = length patches \<and> length (mm ! b) = L
         \<and> (\<forall>j<L. mm ! b ! j = (if j \<in> set (mi ! b) then 1 else 0)
                  \<and> (j \<in> set (ui ! b) \<longleftrightarrow> j \<notin> set (mi ! b)))"
proof -
  obtain np where np: "num_patches self = Some np"
    using out by (cases "num_patches self") (simp_all add: mask_out_def Let_def)
  let ?n = "num_masked (Encoder.mask_ratio self) np"
  let ?R = "random_indices_of self randn (length patches) (dim1 patches)"
  have ne: "patches \<noteq> []" using b by auto
  have d: "dim1 patches = L" using shape ne by (rule dim1_rows)
  have p: "mset (?R ! b) = mset [0..<L]" using random_indices_nth_perm[OF b] d by simp
  note pf = perm_upt_facts[OF p]
  have eqs: "mi = map (slice_to ?n) ?R" "ui = map (slice_from ?n) ?R"
      "mm = map (gather (structured_mask ?n (dim1 patches))) (map argsort ?R)"
    using out unfolding mask_out_unfold[OF np] by simp_all
  have mib: "mi ! b = slice_to ?n (?R ! b)" and uib: "ui ! b = slice_from ?n (?R ! b)"
    and mmb: "mm ! b = gather (structured_mask ?n L) (argsort (?R ! b))"
    using b d by (simp_all add: eqs length_random_indices)
  have l1: "length mm = length patches" by (simp add: eqs length_random_indices)
  have l2: "length (mm ! b) = L" by (simp add: mmb gather_def length_argsort pf)
  have un: "set (slice_to ?n (?R ! b)) \<union> set (slice_from ?n (?R ! b)) = {0..<L}"
    using pf(3) by (metis set_append slice_append)
  have dj: "set (slice_to ?n (?R ! b)) \<inter> set (slice_from ?n (?R ! b)) = {}"
    using pf(2) by (rule slices_disjoint)
  have "mm ! b ! j = (if j \<in> set (mi ! b) then 1 else 0)
      \<and> (j \<in> set (ui ! b) \<longleftrightarrow> j \<notin> set (mi ! b))" if j: "j < L" for j
  proof -
    have "j \<in> set (slice_to ?n (?R ! b)) \<union> set (slice_from ?n (?R ! b))" using un j by simp
    then have "j \<in> set (ui ! b) \<longleftrightarrow> j \<notin> set (mi ! b)" using dj by (auto simp: mib uib)
    then show ?thesis using masked_row[OF p j, of ?n] by (simp add: mmb mib)
  qed
  then show ?thesis using l1 l2 by simp
qed

theorem mask_out_matrix_consistent_witness:
  "mask_out (masking_encoder (3 / 4) 4 True) sample_noise sample_patches
     = Inr ([[[3]], [[5]]], [[2], [0]], [[1, 3, 0], [2, 3, 1]], [[1, 1, 0, 1], [0, 1, 1, 1]])
   \<and> list_all (\<lambda>row. length row = 4) sample_patches
   \<and> 1 < length sample_patches
   \<and> length [[1, 1, 0, 1], [0, 1, 1, 1 :: real]] = length sample_patches
   \<and> length ([[1, 1, 0, 1], [0, 1, 1, 1 :: real]] ! 1) = 4
   \<and> [[1, 1, 0, 1], [0, 1, 1, 1 :: real]] ! 1 ! 0
        = (if 0 \<in> set ([[1, 3, 0], [2, 3, 1 :: nat]] ! 1) then 1 else 0)"
proof -
  have h1: "mask_out (masking_encoder (3 / 4) 4 True) sample_noise sample_patches
     = Inr ([[[3]], [[5]]], [[2], [0]], [[1, 3, 0], [2, 3, 1]], [[1, 1, 0, 1], [0, 1, 1, 1]])"
    by code_simp
  have h2: "list_all (\<lambda>row. length row = 4) sample_patches"
    by (simp add: sample_patches_def)
  have h3: "1 < length sample_patches"
    by (simp add: sample_patches_def)
  show ?thesis
    using mask_out_matrix_consistent[OF h1 h2 h3] h1 h2 h3 by simp
qed

lemma map2_gather_replicate:
  "map2 gather t (replicate (length t) idx) = map (\<lambda>row. gather row idx) t"
  by (induction t) simp_all

lemma gather_upt_drop: "gather row [n..<length row] = drop n row"
proof -
  have "drop n (map (\<lambda>i. row ! i) [0..<length row]) = map (\<lambda>i. row ! i) (drop n [0..<length row])"
    by (rule drop_map)
  then show ?thesis by (simp add: gather_def map_nth)
qed

lemma gather_identity: "gather row (argsort [0..<length row]) = row"
  using argsort_sorted_id[of "[0..<length row]"] by (simp add: gather_def map_nth)

text \<open>
  C5. In evaluation mode the random indices are the identity ordering: for \<open>B\<close> samples
  of \<open>L\<close> patches the masked indices of every sample are \<open>0..k-1\<close> and the unmasked ones
  \<open>k..L-1\<close>, with \<open>k\<close> the number of masked patches. The index lists and the dense mask
  depend on \<open>B\<close>, \<open>L\<close> and the mask ratio only, so two calls with the same \<open>B\<close> and \<open>L\<close>
  return the same partition.
\<close>

theorem mask_out_eval_identity:
  assumes eval: "\<not> training self"
    and shape: "list_all (\<lambda>row. length row = L) patches"
    and np: "num_patches self = Some (isqrt L * isqrt L)"
    and ratio: "0 \<le> Encoder.mask_ratio self" "Encoder.mask_ratio self < 1"
    and small: "L < 2 ^ 53"
    and k: "k = nat (num_masked (Encoder.mask_ratio self) (isqrt L * isqrt L))"
  shows "mask_out self randn patches =
           Inr (map (drop k) patches,
                replicate (length patches) [k..<L],
                replicate (length patches) [0..<k],
                replicate (length patches) (replicate k 1 @ replicate (L - k) 0))"
proof (cases "patches = []")
  case True
  then show ?thesis
    unfolding mask_out_unfold[OF np] by (simp add: random_indices_of_def eval_noise_def eval)
next
  case False
  let ?n = "num_masked (Encoder.mask_ratio self) (isqrt L * isqrt L)"
  have d: "dim1 patches = L" using shape False by (rule dim1_rows)
  have le: "isqrt L * isqrt L \<le> L" by (rule isqrt_sq_le)
  have n: "0 \<le> ?n" "?n \<le> int L"
    using num_masked_within[OF ratio le small] by simp_all
  have R: "random_indices_of self randn (length patches) L = replicate (length patches) [0..<L]"
    using eval by (simp add: random_indices_of_def argsort_eval_noise)
  have t: "slice_to ?n [0..<L] = [0..<k]"
    using n by (simp add: slice_to_def slice_bound_nat take_upt k)
  have f: "slice_from ?n [0..<L] = [k..<L]"
    using n by (simp add: slice_from_def slice_bound_nat drop_upt k)
  have s: "structured_mask ?n L = replicate k 1 @ replicate (L - k) 0"
    using n by (simp add: structured_mask_def slice_bound_nat k)
  have g: "gather (structured_mask ?n L) (argsort [0..<L]) = structured_mask ?n L"
    using gather_identity[of "structured_mask ?n L"] by (simp add: length_structured_mask)
  have "gather row [k..<L] = drop k row" if "row \<in> set patches" for row
    using that shape gather_upt_drop[of row k] by (auto simp: list_all_iff)
  then have u: "map (\<lambda>row. gather row [k..<L]) patches = map (drop k) patches"
    by simp
  show ?thesis
    unfolding mask_out_unfold[OF np] R d
    using g[unfolded s] by (simp add: t f s u map2_gather_replicate)
qed


theorem mask_out_eval_identity_witness:
  "\<not> training (masking_encoder (3 / 4) 4 False)
   \<and> list_all (\<lambda>row. length row = 4) sample_patches
   \<and> num_patches (masking_encoder (3 / 4) 4 False) = Some (isqrt 4 * isqrt 4)
   \<and> 0 \<le> Encoder.mask_ratio (masking_encoder (3 / 4) 4 False)
   \<and> Encoder.mask_ratio (masking_encoder (3 / 4) 4 False) < 1
   \<and> (4::nat) < 2 ^ 53
   \<and> 3 = nat (num_masked (Encoder.mask_ratio (masking_encoder (3 / 4) 4 False)) (isqrt 4 * isqrt 4))
   \<and> mask_out (masking_encoder (3 / 4) 4 False) sample_noise sample_patches
       = Inr (map (drop 3) sample_patches,
              replicate (length sample_patches) [3..<4],
              replicate (length sample_patches) [0..<3],
              replicate (length sample_patches) (replicate 3 1 @ replicate (4 - 3) 0))"
proof -
  have h1: "\<not> training (masking_encoder (3 / 4) 4 False)"
    by (simp add: masking_encoder_def)
  have h2: "list_all (\<lambda>row. length row = 4) sample_patches"
    by (simp add: sample_patches_def)
  have h3: "num_patches (masking_encoder (3 / 4) 4 False) = Some (isqrt 4 * isqrt 4)"
    by (simp add: masking_encoder_def eval_nat_numeral)
  have h4: "0 \<le> Encoder.mask_ratio (masking_encoder (3 / 4) 4 False)"
    by (simp add: masking_encoder_def)
  have h5: "Encoder.mask_ratio (masking_encoder (3 / 4) 4 False) < 1"
    by (simp add: masking_encoder_def)
  have h6: "(4::nat) < 2 ^ 53" by simp
  have h7: "3 = nat (num_masked (Encoder.mask_ratio (masking_encoder (3 / 4) 4 False)) (isqrt 4 * isqrt 4))"
    by code_simp
  show ?thesis
    using mask_out_eval_identity[OF h1 h2 h3 h4 h5 h6 h7, of sample_noise] h1 h2 h3 h4 h5 h6 h7
    by blast
qed

section \<open>Shapes of tensors\<close>

lemma is_mat_iff: "is_mat B L m \<longleftrightarrow> length m = B \<and> (\<forall>r\<in>set m. length r = L)"
  by (simp add: is_mat_def list_all_iff)

lemma is_ten3_iff: "is_ten3 B L D t \<longleftrightarrow> length t = B \<and> (\<forall>m\<in>set t. is_mat L D m)"
  by (simp add: is_ten3_def list_all_iff)

lemma is_ten4_iff: "is_ten4 B C H W t \<longleftrightarrow> length t = B \<and> (\<forall>x\<in>set t. is_ten3 C H W x)"
  by (simp add: is_ten4_def list_all_iff)

lemma is_mat_replicate: "length r = L \<Longrightarrow> is_mat B L (replicate B r)"
  by (simp add: is_mat_iff)

lemma is_ten3_replicate: "is_mat L D m \<Longrightarrow> is_ten3 B L D (replicate B m)"
  by (simp add: is_ten3_iff)

lemma is_mat_dim1: "is_mat B L m \<Longrightarrow> 0 < B \<Longrightarrow> dim1 m = L"
  by (cases m) (auto simp: is_mat_iff dim1_def)

lemma is_ten3_dim1: "is_ten3 B L D t \<Longrightarrow> 0 < B \<Longrightarrow> dim1 t = L"
  by (cases t) (auto simp: is_ten3_iff is_mat_iff dim1_def)

lemma is_mat_rows: "is_mat B L m \<Longrightarrow> list_all (\<lambda>r. length r = L) m"
  by (simp add: is_mat_def)

lemma is_ten3_rows: "is_ten3 B L D t \<Longrightarrow> list_all (\<lambda>r. length r = L) t"
  by (auto simp: is_ten3_iff is_mat_iff list_all_iff)

lemma same_shape2_mat: "is_mat B L a \<Longrightarrow> is_mat B L b \<Longrightarrow> same_shape2 a b"
  by (auto simp: same_shape2_def is_mat_iff list_all2_conv_all_nth)

lemma same_shape3_ten3: "is_ten3 B L D a \<Longrightarrow> is_ten3 B L D b \<Longrightarrow> same_shape3 a b"
  by (auto simp: same_shape3_def is_ten3_iff list_all2_conv_all_nth intro!: same_shape2_mat)

lemma is_mat_nth: "is_mat B L m \<longleftrightarrow> length m = B \<and> (\<forall>i<B. length (m ! i) = L)"
  by (auto simp: is_mat_def list_all_length)

lemma is_ten3_nth: "is_ten3 B L D t \<longleftrightarrow> length t = B \<and> (\<forall>i<B. is_mat L D (t ! i))"
  by (auto simp: is_ten3_def list_all_length)


lemma map2_mat:
  assumes "is_mat B L a" "is_mat B L b"
    and "\<And>u v. length u = L \<Longrightarrow> length v = L \<Longrightarrow> length (f u v) = L'"
  shows "is_mat B L' (map2 f a b)"
  using assms by (simp add: is_mat_nth)

lemma map2_ten3:
  assumes "is_ten3 B L D a" "is_ten3 B L D' b"
    and "\<And>u v. is_mat L D u \<Longrightarrow> is_mat L D' v \<Longrightarrow> is_mat L D'' (f u v)"
  shows "is_ten3 B L D'' (map2 f a b)"
  using assms by (simp add: is_ten3_nth)

lemma map_mat:
  assumes "is_mat B L a" "\<And>u. length u = L \<Longrightarrow> length (f u) = L'"
  shows "is_mat B L' (map f a)"
  using assms by (simp add: is_mat_nth)

lemma map_ten3:
  assumes "is_ten3 B L D a" "\<And>u. is_mat L D u \<Longrightarrow> is_mat L' D' (f u)"
  shows "is_ten3 B L' D' (map f a)"
  using assms by (simp add: is_ten3_nth)

lemma add3_shape:
  assumes "is_ten3 B L D a" "is_ten3 B L D b"
  shows "\<exists>c. add3 a b = Inr c \<and> is_ten3 B L D c"
proof -
  have "is_ten3 B L D (map2 (map2 (map2 (+))) a b)"
    using assms by (intro map2_ten3[where D=D and D'=D] map2_mat) auto
  then show ?thesis using same_shape3_ten3[OF assms] by (simp add: add3_def)
qed

lemma cat_last_shape:
  assumes "is_ten3 B L D a" "is_ten3 B L D' b"
  shows "\<exists>c. cat_last a b = Inr c \<and> is_ten3 B L (D + D') c"
proof -
  have "same_shape2 a b"
    using assms by (auto simp: same_shape2_def is_ten3_nth is_mat_nth list_all2_conv_all_nth)
  moreover have "is_ten3 B L (D + D') (map2 (map2 (@)) a b)"
    using assms by (intro map2_ten3[where D=D and D'=D']) (simp_all add: is_mat_nth)
  ultimately show ?thesis by (simp add: cat_last_def)
qed

lemma remdups_le1: "set xs \<subseteq> {d} \<Longrightarrow> length (remdups xs) \<le> 1"
proof -
  assume "set xs \<subseteq> {d}"
  then have "card (set xs) \<le> card {d}" by (intro card_mono) simp_all
  then show ?thesis by (simp add: length_remdups_card_conv)
qed

lemma widths_ten3: "is_ten3 B L D t \<Longrightarrow> set (widths t) \<subseteq> {D}"
  by (auto simp: widths_def is_ten3_iff is_mat_iff)

lemma widths_ok:
  assumes "is_ten3 B L D a" "is_ten3 B' L' D b"
  shows "length (remdups (widths a @ widths b)) \<le> 1"
  using widths_ten3[OF assms(1)] widths_ten3[OF assms(2)] by (intro remdups_le1[of _ D]) auto

lemma cat_dim1_shape:
  assumes "is_ten3 B L D a" "is_ten3 B L' D b"
  shows "\<exists>c. cat_dim1 a b = Inr c \<and> is_ten3 B (L + L') D c"
proof -
  have "is_ten3 B (L + L') D (map2 (@) a b)"
    using assms by (auto simp: is_ten3_nth is_mat_iff)
  then show ?thesis using widths_ok[OF assms] assms by (simp add: cat_dim1_def is_ten3_nth)
qed

section \<open>Shapes of the encodings\<close>

lemma column_shape:
  assumes "is_mat B L t" "k < L"
  shows "\<exists>v. column t k = Inr v \<and> length v = B"
  using assms by (auto simp: column_def is_mat_iff list_all_iff)

lemma set_column_shape:
  assumes "is_mat B L t" "length v = B"
  shows "\<exists>t'. set_column t k v = Inr t' \<and> is_mat B L t'"
  using assms by (auto simp: set_column_def is_mat_nth)

lemma fill_columns_shape:
  assumes "is_mat B L t" "lo \<le> hi" "hi \<le> L"
  shows "is_mat B L (fill_columns t lo hi c)"
  using assms by (auto simp: fill_columns_def is_mat_nth)

lemma encode_latlon_block_shape:
  assumes "is_mat B 8 ev" "is_mat B 2 ll"
  shows "\<exists>m. encode_latlon_block ev ll = Inr m \<and> is_mat B 8 m"
proof -
  obtain lat0 where c0: "column ll 0 = Inr lat0" "length lat0 = B"
    using column_shape[OF assms(2), of 0] by auto
  obtain lon0 where c1: "column ll 1 = Inr lon0" "length lon0 = B"
    using column_shape[OF assms(2), of 1] by auto
  obtain e0 where e0: "set_column ev 0 (map sin (map (\<lambda>x. x * pi / 180) lat0)) = Inr e0" "is_mat B 8 e0"
    using set_column_shape[OF assms(1), of "map sin (map (\<lambda>x. x * pi / 180) lat0)" 0] c0 by auto
  obtain e1 where e1: "set_column e0 1 (map cos (map (\<lambda>x. x * pi / 180) lat0)) = Inr e1" "is_mat B 8 e1"
    using set_column_shape[OF e0(2), of "map cos (map (\<lambda>x. x * pi / 180) lat0)" 1] c0 by auto
  obtain e2 where e2: "set_column e1 2 (map sin (map (\<lambda>x. x * pi / 180) lon0)) = Inr e2" "is_mat B 8 e2"
    using set_column_shape[OF e1(2), of "map sin (map (\<lambda>x. x * pi / 180) lon0)" 2] c1 by auto
  obtain e3 where e3: "set_column e2 3 (map cos (map (\<lambda>x. x * pi / 180) lon0)) = Inr e3" "is_mat B 8 e3"
    using set_column_shape[OF e2(2), of "map cos (map (\<lambda>x. x * pi / 180) lon0)" 3] c1 by auto
  show ?thesis
    using c0 c1 e0 e1 e2 e3 by (simp add: encode_latlon_block_def Let_def)
qed

lemma encode_metadata_shape:
  assumes "is_mat B 2 t" "is_mat B 2 ll"
  shows "\<exists>m. encode_metadata t ll True True = Inr m \<and> is_mat B 8 m"
proof -
  have z: "is_mat B 8 (replicate B (replicate 8 (0::real)))" by (simp add: is_mat_replicate)
  obtain m where m: "encode_latlon_block (replicate B (replicate 8 0)) ll = Inr m" "is_mat B 8 m"
    using encode_latlon_block_shape[OF z assms(2)] by auto
  have "is_mat B 8 (fill_columns m 4 8 0)" using m(2) by (rule fill_columns_shape) simp_all
  moreover have "length t = B" using assms(1) by (simp add: is_mat_iff)
  ultimately show ?thesis by (simp add: encode_metadata_def m Let_def)
qed

lemma pos_metadata_shape:
  assumes po: "posemb_ok posemb" and t: "is_mat B 2 t" and ll: "is_mat B 2 ll" and d: "8 \<le> D"
  shows "\<exists>pme. pos_metadata posemb B (g * g) g (int D - 8) gs t ll = Inr pme
               \<and> is_ten3 B (g * g) D pme"
proof -
  have "0 \<le> int D - 8" using d by simp
  then obtain pe where pe: "posemb g g (int D - 8) gs = Inr pe" "is_mat (g * g) (nat (int D - 8)) pe"
    using po unfolding posemb_ok_def by blast
  obtain md where md: "encode_metadata t ll True True = Inr md" "is_mat B 8 md"
    using encode_metadata_shape[OF t ll] by auto
  have a: "is_ten3 B (g * g) (nat (int D - 8)) (replicate B pe)"
    using pe(2) by (rule is_ten3_replicate)
  have b: "is_ten3 B (g * g) 8 (map (replicate (g * g)) md)"
    using md(2) by (auto simp: is_ten3_nth is_mat_nth)
  obtain c where c: "cat_last (replicate B pe) (map (replicate (g * g)) md) = Inr c"
      "is_ten3 B (g * g) (nat (int D - 8) + 8) c"
    using cat_last_shape[OF a b] by auto
  have "nat (int D - 8) + 8 = D" using d by simp
  then show ?thesis using c by (simp add: pos_metadata_def pe md)
qed

lemma add_encodings_shape:
  assumes po: "posemb_ok posemb" and p: "is_ten3 B (g * g) (Encoder.dim self) patches"
    and B: "0 < B" and t: "is_mat B 2 t" and ll: "is_mat B 2 ll" and gs: "is_mat B 1 gs"
    and d: "8 \<le> Encoder.dim self"
  shows "\<exists>p1. add_encodings posemb self patches t ll gs
                 = Inr (self\<lparr>num_patches := Some (g * g)\<rparr>, p1)
               \<and> is_ten3 B (g * g) (Encoder.dim self) p1"
proof -
  have l: "length patches = B" "dim1 patches = g * g"
    using p B by (simp_all add: is_ten3_dim1) (simp add: is_ten3_iff)
  obtain g0 gr where g0: "gs = g0 # gr" using gs B by (cases gs) (auto simp: is_mat_iff)
  obtain pme where pme: "pos_metadata posemb B (g * g) g (int (Encoder.dim self) - 8) (GsdRow g0) t ll = Inr pme"
      "is_ten3 B (g * g) (Encoder.dim self) pme"
    using pos_metadata_shape[OF po t ll d] by blast
  obtain p1 where p1: "add3 patches pme = Inr p1" "is_ten3 B (g * g) (Encoder.dim self) p1"
    using add3_shape[OF p pme(2)] by auto
  show ?thesis
    by (simp add: add_encodings_def l isqrt_square Let_def first_row_def g0 pme p1)
qed

section \<open>Shapes of the masking and of the encoder\<close>

lemma gather_mat:
  assumes "is_mat L D row" "set idx \<subseteq> {0..<L}"
  shows "is_mat (length idx) D (gather row idx)"
  using assms by (auto simp: gather_def is_mat_nth subset_iff)

lemma length_slice_from:
  "0 \<le> n \<Longrightarrow> n \<le> int (length xs) \<Longrightarrow> length (slice_from n xs) = length xs - nat n"
  by (simp add: slice_from_def slice_bound_nat)

lemma set_slice_to: "set (slice_to n xs) \<subseteq> set xs"
  by (simp add: slice_to_def set_take_subset)

lemma set_slice_from: "set (slice_from n xs) \<subseteq> set xs"
  by (simp add: slice_from_def set_drop_subset)

lemma gather_zeros:
  assumes "set idx \<subseteq> {0..<L}"
  shows "gather (replicate L (0::real)) idx = replicate (length idx) 0"
proof -
  have "map (\<lambda>i. replicate L (0::real) ! i) idx = map (\<lambda>i. 0) idx"
    using assms by (intro map_cong) auto
  then show ?thesis by (simp add: gather_def map_replicate_const)
qed

lemma mask_out_shape:
  assumes p: "is_ten3 B L D patches" and B: "0 < B"
    and np: "num_patches self = Some np"
    and n: "0 \<le> num_masked (Encoder.mask_ratio self) np"
           "num_masked (Encoder.mask_ratio self) np \<le> int L"
    and k: "k = nat (num_masked (Encoder.mask_ratio self) np)"
  shows "\<exists>up ui mi mm.
           mask_out self randn patches = Inr (up, ui, mi, mm)
           \<and> is_ten3 B (L - k) D up \<and> is_mat B (L - k) ui \<and> is_mat B k mi \<and> is_mat B L mm
           \<and> (\<forall>b<B. set (ui ! b) \<subseteq> {0..<L} \<and> set (mi ! b) \<subseteq> {0..<L})
           \<and> (k = 0 \<longrightarrow> mm = replicate B (replicate L 0))"
proof -
  let ?n = "num_masked (Encoder.mask_ratio self) np"
  have l: "length patches = B" "dim1 patches = L"
    using p B by (simp_all add: is_ten3_dim1) (simp add: is_ten3_iff)
  let ?R = "random_indices_of self randn B L"
  have lR: "length ?R = B" by (rule length_random_indices)
  have perm: "mset (?R ! b) = mset [0..<L]" if "b < B" for b
    using that by (rule random_indices_nth_perm)
  have pf: "length (?R ! b) = L" "set (?R ! b) = {0..<L}" if "b < B" for b
    using perm_upt_facts[OF perm[OF that]] by simp_all
  let ?ui = "map (slice_from ?n) ?R" and ?mi = "map (slice_to ?n) ?R"
  let ?mm = "map (gather (structured_mask ?n L)) (map argsort ?R)"
  let ?up = "map2 gather patches ?ui"
  have ui: "is_mat B (L - k) ?ui"
    using n pf(1) by (simp add: is_mat_nth lR length_slice_from k)
  have mi: "is_mat B k ?mi"
    using n pf(1) by (simp add: is_mat_nth lR length_slice_to k)
  have rng: "set (?ui ! b) \<subseteq> {0..<L} \<and> set (?mi ! b) \<subseteq> {0..<L}" if "b < B" for b
    using that pf(2)[OF that] set_slice_from[of ?n "?R ! b"] set_slice_to[of ?n "?R ! b"]
    by (simp add: lR)
  have la: "length (argsort (?R ! b)) = L" "set (argsort (?R ! b)) \<subseteq> {0..<L}" if "b < B" for b
    using pf(1)[OF that] by (simp_all add: length_argsort set_argsort)
  have mm: "is_mat B L ?mm"
    using la(1) by (simp add: is_mat_nth lR gather_def)
  have up: "is_ten3 B (L - k) D ?up"
  proof -
    have "is_mat (L - k) D (gather (patches ! b) (?ui ! b))" if "b < B" for b
    proof -
      have "is_mat L D (patches ! b)" using p that by (simp add: is_ten3_nth)
      moreover have "set (?ui ! b) \<subseteq> {0..<L}" using rng[OF that] by simp
      moreover have "length (?ui ! b) = L - k"
        using n pf(1)[OF that] that by (simp add: lR length_slice_from k)
      ultimately show ?thesis using gather_mat[of L D "patches ! b" "?ui ! b"] by simp
    qed
    then show ?thesis by (simp add: is_ten3_nth l lR)
  qed
  have z: "?mm = replicate B (replicate L 0)" if "k = 0"
  proof -
    have s: "structured_mask ?n L = replicate L 0"
      using that n k by (simp add: structured_mask_def slice_bound_nat)
    have "?mm ! b = replicate L 0" if "b < B" for b
      using that la[OF that] gather_zeros[of "argsort (?R ! b)" L] by (simp add: lR s)
    then show ?thesis by (intro nth_equalityI) (simp_all add: lR)
  qed
  show ?thesis
    unfolding mask_out_unfold[OF np] l using up ui mi mm rng z by blast
qed

lemma first_row_mat:
  assumes "is_mat B L m" "0 < B"
  shows "\<exists>r. first_row m = Inr r \<and> length r = L"
  using assms by (cases m) (auto simp: first_row_def is_mat_iff)

lemma Encoder_forward_shape:
  assumes ok: "encoder_ok self" and po: "posemb_ok posemb"
    and dc: "datacube_ok B C (g * P) (g * P) dc" and B: "0 < B"
    and C: "0 < C"
    and P: "P = Encoder.patch_size self" "0 < P"
    and nb: "0 \<le> num_masked (Encoder.mask_ratio self) (g * g)"
            "num_masked (Encoder.mask_ratio self) (g * g) \<le> int (g * g)"
    and k: "k = nat (num_masked (Encoder.mask_ratio self) (g * g))"
  shows "\<exists>emb ui mi mm.
           Encoder_forward posemb self randn dc
             = Inr (self\<lparr>num_patches := Some (g * g)\<rparr>, emb, ui, mi, mm)
           \<and> is_ten3 B (1 + (g * g - k)) (Encoder.dim self) emb
           \<and> is_mat B (g * g - k) ui \<and> is_mat B k mi \<and> is_mat B (g * g) mm
           \<and> (\<forall>b<B. set (ui ! b) \<subseteq> {0..<g * g} \<and> set (mi ! b) \<subseteq> {0..<g * g})
           \<and> (k = 0 \<longrightarrow> mm = replicate B (replicate (g * g) 0))"
proof -
  let ?D = "Encoder.dim self" and ?L = "g * g"
  let ?self1 = "self\<lparr>num_patches := Some ?L\<rparr>"
  have dcs: "is_ten4 B C (g * P) (g * P) (pixels dc)" "is_mat B 2 (time dc)"
      "is_mat B 2 (latlon dc)" "is_mat B 1 (gsd dc)" "is_mat B C (waves dc)"
    using dc by (simp_all add: datacube_ok_def)
  have lc: "length (pixels dc) = B" using dcs(1) by (simp add: is_ten4_iff)
  obtain w0 where w0: "first_row (waves dc) = Inr w0" "length w0 = C"
    using first_row_mat[OF dcs(5) B] by auto
  have pe: "patch_embedding_ok P ?D (patch_embedding self)"
    and tr: "shape_preserving (Encoder.transformer self)"
    and cl: "length (cls_token self) = ?D" and d8: "8 \<le> ?D"
    using ok P(1) by (simp_all add: encoder_ok_def)
  have "is_ten4 B C (g * P) (g * P) (pixels dc) \<and> 0 < C \<and> length w0 = C
        \<and> P dvd g * P \<and> P dvd g * P"
    using dcs(1) w0(2) C by simp
  then obtain p we where p: "patch_embedding self (pixels dc) w0 = Inr (p, we)"
      "is_ten3 B ((g * P div P) * (g * P div P)) ?D p"
    using pe unfolding patch_embedding_ok_def by blast
  have p': "is_ten3 B ?L ?D p" using p(2) P(2) by simp
  obtain p1 where p1: "add_encodings posemb self p (time dc) (latlon dc) (gsd dc) = Inr (?self1, p1)"
      "is_ten3 B ?L ?D p1"
    using add_encodings_shape[OF po p' B dcs(2) dcs(3) dcs(4) d8] by auto
  have np: "num_patches ?self1 = Some ?L" by simp
  have n: "0 \<le> num_masked (Encoder.mask_ratio ?self1) ?L"
      "num_masked (Encoder.mask_ratio ?self1) ?L \<le> int ?L"
    using nb by simp_all
  have k1: "k = nat (num_masked (Encoder.mask_ratio ?self1) ?L)" using k by simp
  obtain up ui mi mm where m: "mask_out ?self1 randn p1 = Inr (up, ui, mi, mm)"
      "is_ten3 B (?L - k) ?D up" "is_mat B (?L - k) ui" "is_mat B k mi" "is_mat B ?L mm"
      "\<forall>b<B. set (ui ! b) \<subseteq> {0..<?L} \<and> set (mi ! b) \<subseteq> {0..<?L}"
      "k = 0 \<longrightarrow> mm = replicate B (replicate ?L 0)"
    using mask_out_shape[OF p1(2) B np n k1, of randn] by blast
  have c: "is_ten3 B 1 ?D (replicate B [cls_token ?self1])"
    using cl by (simp add: is_ten3_iff is_mat_iff)
  obtain x where x: "cat_dim1 (replicate B [cls_token ?self1]) up = Inr x"
      "is_ten3 B (1 + (?L - k)) ?D x"
    using cat_dim1_shape[OF c m(2)] by auto
  obtain y where y: "Encoder.transformer self x = Inr y" "is_ten3 B (1 + (?L - k)) ?D y"
    using tr x(2) unfolding shape_preserving_def by blast
  have "Encoder_forward posemb self randn dc = Inr (?self1, y, ui, mi, mm)"
    using x(1) y(1) by (simp add: Encoder_forward_def Let_def w0 p p1 m lc)
  then show ?thesis using y(2) m by blast
qed

section \<open>Shapes of the decoder\<close>









section \<open>Shapes of the loss\<close>


lemma is_ten3_dim2: "is_ten3 C H W img \<Longrightarrow> 0 < C \<Longrightarrow> 0 < H \<Longrightarrow> dim2 img = W"
  by (cases img) (auto simp: dim2_def is_ten3_iff intro: is_mat_dim1)







section \<open>Properties of the forward pass\<close>

lemma num_masked_zero: "num_masked 0 n = 0"
  by (simp add: num_masked_def float_mul_int_def round_double_def py_int_def)

lemma library_model_ok:
  assumes "library_ok lib"
  shows "model_ok (clay_mae_tiny lib r p n)"
  using assms
  by (simp add: library_ok_def model_ok_def clay_mae_tiny_def ClayMAE_init_def Encoder_init_def
      Decoder_init_def encoder_ok_def decoder_ok_def)




lemma sample_posemb_ok: "posemb_ok sample_posemb"
  by (simp add: posemb_ok_def sample_posemb_def is_mat_iff)

lemma sample_library_ok: "library_ok sample_library"
proof -
  have a: "patch_embedding_ok P D (DynamicEmbedding_encode sample_library wd lt P D)" for wd lt P D
    unfolding patch_embedding_ok_def
  proof (intro allI impI)
    fix cube :: ten4 and w :: vec and B C H W
    assume h: "is_ten4 B C H W cube \<and> 0 < C \<and> length w = C \<and> P dvd H \<and> P dvd W"
    have "(dim1 img div P) * (dim2 img div P) = (H div P) * (W div P)" if "img \<in> set cube" for img
    proof -
      have i: "is_ten3 C H W img" using h that by (simp add: is_ten4_iff)
      have d1: "dim1 img = H" using i h by (simp add: is_ten3_dim1)
      show ?thesis
      proof (cases "H = 0")
        case True then show ?thesis using d1 by simp
      next
        case False
        then have "dim2 img = W" using i h by (simp add: is_ten3_dim2)
        then show ?thesis using d1 by simp
      qed
    qed
    then have "is_ten3 B ((H div P) * (W div P)) D
        (map (\<lambda>img. replicate ((dim1 img div P) * (dim2 img div P)) (replicate D (0::real))) cube)"
      using h by (simp add: is_ten3_iff is_ten4_iff is_mat_iff)
    then show "\<exists>p we. DynamicEmbedding_encode sample_library wd lt P D cube w = Inr (p, we)
        \<and> is_ten3 B ((H div P) * (W div P)) D p"
      by (simp add: sample_library_def)
  qed
  have b: "embed_to_pixels_ok P D (DynamicEmbedding_decode sample_library wd lt P D)" for wd lt P D
    by (simp add: embed_to_pixels_ok_def sample_library_def is_ten3_iff is_mat_iff)
  have c: "shape_preserving (Transformer sample_library D dp h dh m)" for D dp h dh m
    by (simp add: shape_preserving_def sample_library_def)
  have d: "maps_width E D (Linear sample_library E D)" for E D
    by (simp add: maps_width_def sample_library_def is_ten3_iff is_mat_iff)
  show ?thesis
    unfolding library_ok_def using a b c d by (simp add: sample_library_def)
qed




lemma Decoder_forward_first_rows:
  assumes "first_row gs' = first_row gs" "first_row w' = first_row w"
  shows "Decoder_forward posemb dec emb ui mi mm t ll gs' w'
       = Decoder_forward posemb dec emb ui mi mm t ll gs w"
  unfolding Decoder_forward_def assms by (rule refl)

lemma Encoder_forward_first_rows:
  assumes "first_row (gsd dc') = first_row (gsd dc)" "first_row (waves dc') = first_row (waves dc)"
    and "pixels dc' = pixels dc" "time dc' = time dc" "latlon dc' = latlon dc"
  shows "Encoder_forward posemb enc randn dc' = Encoder_forward posemb enc randn dc"
  unfolding Encoder_forward_def add_encodings_def assms by (rule refl)

text \<open>
  C8. The forward pass reads \<open>gsd\<close> and \<open>waves\<close> through \<^verbatim>\<open>gsd[0]\<close> and \<^verbatim>\<open>waves[0]\<close> only:
  two datacubes that agree on \<open>pixels\<close>, \<open>time\<close>, \<open>latlon\<close> and on those first elements give
  the same encoder result, the same decoder result and the same loss, for the same
  masking noise.
\<close>

theorem forward_reads_first_gsd_and_waves:
  assumes g: "first_row (gsd dc') = first_row (gsd dc)"
    and w: "first_row (waves dc') = first_row (waves dc)"
    and same: "pixels dc' = pixels dc" "time dc' = time dc" "latlon dc' = latlon dc"
  shows "Encoder_forward posemb (encoder self) randn dc'
           = Encoder_forward posemb (encoder self) randn dc
         \<and> Decoder_forward posemb (decoder self) emb ui mi mm (time dc') (latlon dc') (gsd dc')
             (waves dc')
           = Decoder_forward posemb (decoder self) emb ui mi mm (time dc) (latlon dc) (gsd dc)
               (waves dc)
         \<and> ClayMAE_forward posemb self randn dc' = ClayMAE_forward posemb self randn dc"
proof -
  have e: "Encoder_forward posemb (encoder self) randn dc'
      = Encoder_forward posemb (encoder self) randn dc"
    using g w same by (rule Encoder_forward_first_rows)
  have d: "Decoder_forward posemb (decoder self) emb ui mi mm (time dc') (latlon dc') (gsd dc')
             (waves dc')
           = Decoder_forward posemb (decoder self) emb ui mi mm (time dc) (latlon dc) (gsd dc)
               (waves dc)" for emb ui mi mm
    using g w same Decoder_forward_first_rows[OF g w] by simp
  have "ClayMAE_forward posemb self randn dc' = ClayMAE_forward posemb self randn dc"
    unfolding ClayMAE_forward_def e d same(1) by (rule refl)
  then show ?thesis using e d by simp
qed

theorem forward_reads_first_gsd_and_waves_witness:
  "first_row (gsd ((sample_datacube 2 4 32 32)\<lparr>gsd := [[10], [30]], waves := [[1, 1, 1, 1], [2, 3, 4, 5]]\<rparr>))
     = first_row (gsd (sample_datacube 2 4 32 32))
   \<and> first_row (waves ((sample_datacube 2 4 32 32)\<lparr>gsd := [[10], [30]], waves := [[1, 1, 1, 1], [2, 3, 4, 5]]\<rparr>))
     = first_row (waves (sample_datacube 2 4 32 32))
   \<and> gsd ((sample_datacube 2 4 32 32)\<lparr>gsd := [[10], [30]], waves := [[1, 1, 1, 1], [2, 3, 4, 5]]\<rparr>)
     \<noteq> gsd (sample_datacube 2 4 32 32)
   \<and> waves ((sample_datacube 2 4 32 32)\<lparr>gsd := [[10], [30]], waves := [[1, 1, 1, 1], [2, 3, 4, 5]]\<rparr>)
     \<noteq> waves (sample_datacube 2 4 32 32)
   \<and> ClayMAE_forward sample_posemb (clay_mae_tiny sample_library (3 / 4) 16 False) sample_noise
       ((sample_datacube 2 4 32 32)\<lparr>gsd := [[10], [30]], waves := [[1, 1, 1, 1], [2, 3, 4, 5]]\<rparr>)
     = ClayMAE_forward sample_posemb (clay_mae_tiny sample_library (3 / 4) 16 False) sample_noise
         (sample_datacube 2 4 32 32)"
proof -
  let ?dc = "sample_datacube 2 4 32 32"
  let ?dc' = "?dc\<lparr>gsd := [[10], [30]], waves := [[1, 1, 1, 1], [2, 3, 4, 5]]\<rparr>"
  have h1: "first_row (gsd ?dc') = first_row (gsd ?dc)"
    by (simp add: sample_datacube_def first_row_def eval_nat_numeral)
  have h2: "first_row (waves ?dc') = first_row (waves ?dc)"
    by (simp add: sample_datacube_def first_row_def eval_nat_numeral)
  have h3: "pixels ?dc' = pixels ?dc" "time ?dc' = time ?dc" "latlon ?dc' = latlon ?dc"
    by simp_all
  have n1: "gsd ?dc' \<noteq> gsd ?dc" by (simp add: sample_datacube_def eval_nat_numeral)
  have n2: "waves ?dc' \<noteq> waves ?dc" by (simp add: sample_datacube_def eval_nat_numeral)
  show ?thesis
    using forward_reads_first_gsd_and_waves[OF h1 h2 h3,
        of sample_posemb "clay_mae_tiny sample_library (3 / 4) 16 False" sample_noise "[]" "[]" "[]" "[]"]
      h1 h2 n1 n2 by blast
qed

section \<open>Properties of the loss\<close>

















section \<open>Mask ratio zero\<close>




section \<open>Construction and prediction\<close>

lemma invalid_model_size_message:
  fixes name :: string
  defines "msg \<equiv> ''Invalid model size '' @ name @ ''. Expected one of '' @ dict_keys_repr [''tiny'']"
  shows "sublist name msg" "sublist ''tiny'' msg"
proof -
  show "sublist name msg" unfolding msg_def by (rule sublist_appendI)
  have eq: "msg = (''Invalid model size '' @ name @ ''. Expected one of dict_keys(['' @ [CHR 0x27])
                  @ ''tiny'' @ ([CHR 0x27] @ ''])'')"
    by (simp add: msg_def dict_keys_repr_def)
  show "sublist ''tiny'' msg" unfolding eq by (rule sublist_appendI)
qed

text \<open>
  C9. For a model size that is not registered the constructor raises \<^verbatim>\<open>ValueError\<close> with
  a message that contains the given name and every registered name; for \<open>tiny\<close> it
  returns the module.
\<close>

theorem ClayMAEModule_init_model_size:
  "(model_size args \<noteq> ''tiny'' \<longrightarrow>
      (\<exists>msg. ClayMAEModule_init lib args = Inl (ValueError msg)
             \<and> sublist (model_size args) msg
             \<and> list_all (\<lambda>key. sublist key msg) (map fst model_map)))
   \<and> (model_size args = ''tiny'' \<longrightarrow>
      ClayMAEModule_init lib args
        = Inr \<lparr>hparams = args,
               model = clay_mae_tiny lib (hparams.mask_ratio args) (hparams.patch_size args)
                         (hparams.norm_pix_loss args)\<rparr>)"
  using invalid_model_size_message[of "model_size args"]
  by (simp add: ClayMAEModule_init_def model_map_def)

theorem ClayMAEModule_init_model_size_witness:
  "model_size (default_hparams\<lparr>model_size := ''huge''\<rparr>) \<noteq> ''tiny''
   \<and> (\<exists>msg. ClayMAEModule_init sample_library (default_hparams\<lparr>model_size := ''huge''\<rparr>)
              = Inl (ValueError msg)
         \<and> sublist (model_size (default_hparams\<lparr>model_size := ''huge''\<rparr>)) msg
         \<and> list_all (\<lambda>key. sublist key msg) (map fst model_map))
   \<and> model_size default_hparams = ''tiny''
   \<and> ClayMAEModule_init sample_library default_hparams
       = Inr \<lparr>hparams = default_hparams,
              model = clay_mae_tiny sample_library (hparams.mask_ratio default_hparams)
                        (hparams.patch_size default_hparams)
                        (hparams.norm_pix_loss default_hparams)\<rparr>"
proof -
  have h1: "model_size (default_hparams\<lparr>model_size := ''huge''\<rparr>) \<noteq> ''tiny''" by simp
  have h2: "model_size default_hparams = ''tiny''" by (simp add: default_hparams_def)
  show ?thesis
    using ClayMAEModule_init_model_size[of "default_hparams\<lparr>model_size := ''huge''\<rparr>" sample_library]
      ClayMAEModule_init_model_size[of default_hparams sample_library] h1 h2
    by blast
qed

lemma invalid_model_size_example:
  "ClayMAEModule_init sample_library (default_hparams\<lparr>model_size := ''huge''\<rparr>)
     = Inl (ValueError (''Invalid model size huge. Expected one of dict_keys(['' @ [CHR 0x27]
                        @ ''tiny'' @ [CHR 0x27] @ ''])''))"
  by (simp add: ClayMAEModule_init_def model_map_def dict_keys_repr_def)

lemma Encoder_getattr_B: "Encoder_getattr enc ''B'' = Inl (AttributeError ''B'')"
  by (simp add: Encoder_getattr_def)

text \<open>
  C10. \<open>predict_step\<close> never returns a table: either the forward pass of the encoder
  raises, or the lookup of the attribute \<open>B\<close>, which no method of \<open>Encoder\<close> assigns,
  raises \<^verbatim>\<open>AttributeError\<close>.
\<close>

theorem predict_step_always_fails:
  "predict_step posemb to_crs self randn b =
     (case Encoder_forward posemb ((encoder (model self))\<lparr>Encoder.mask_ratio := 0\<rparr>) randn b of
        Inl e \<Rightarrow> Inl e
      | Inr out \<Rightarrow> Inl (AttributeError ''B''))"
  by (simp add: predict_step_def Let_def Encoder_getattr_B split: sum.splits prod.splits)

theorem predict_step_always_fails_witness:
  "predict_step sample_posemb (\<lambda>name table. table)
     \<lparr>hparams = default_hparams, model = clay_mae_tiny sample_library (3 / 4) 16 False\<rparr>
     sample_noise sample_batch
   = Inl (AttributeError ''B'')"
proof -
  let ?e = "(encoder (clay_mae_tiny sample_library (3 / 4) 16 False))\<lparr>Encoder.mask_ratio := 0\<rparr>"
  have ok: "encoder_ok ?e"
    using library_model_ok[OF sample_library_ok, of "3 / 4" 16 False]
    by (auto simp: model_ok_def encoder_ok_def)
  have dc: "datacube_ok 2 4 (2 * 16) (2 * 16) sample_batch"
    by (simp add: datacube_ok_def sample_batch_def is_ten4_iff is_ten3_iff is_mat_iff)
  have P: "16 = Encoder.patch_size ?e"
    by (simp add: clay_mae_tiny_def ClayMAE_init_def Encoder_init_def)
  have nb: "0 \<le> num_masked (Encoder.mask_ratio ?e) (2 * 2)"
      "num_masked (Encoder.mask_ratio ?e) (2 * 2) \<le> int (2 * 2)"
      "0 = nat (num_masked (Encoder.mask_ratio ?e) (2 * 2))"
    by (simp_all add: num_masked_zero)
  have "\<exists>out. Encoder_forward sample_posemb ?e sample_noise sample_batch = Inr out"
    using Encoder_forward_shape[OF ok sample_posemb_ok dc _ _ P _ nb, of sample_noise] by auto
  then show ?thesis
    using predict_step_always_fails[of sample_posemb "\<lambda>name table. table"
        "\<lparr>hparams = default_hparams, model = clay_mae_tiny sample_library (3 / 4) 16 False\<rparr>"
        sample_noise sample_batch]
    by auto
qed

end
